theory Spec2Isabelle
  imports Main "HOL-Library.AList"
begin

section \<open>Data model\<close>

text \<open>
  The record the classification routes return (\<^verbatim>\<open>EmailInfo\<close> in
  \<^verbatim>\<open>src/app/api/gmail/route.ts\<close>) and the dashboard stores (\<^verbatim>\<open>JobEmail\<close> in the
  page component): the page receives the route's JSON unchanged, so one record type
  serves both. The fields \<^verbatim>\<open>id\<close> and \<^verbatim>\<open>from\<close> carry a prime, the plain names being
  taken in Isabelle. Strings are \<^typ>\<open>string\<close>, read as ASCII text: the case mappings
  and the white space class below are JavaScript's on ASCII.
\<close>

record EmailInfo =
  id' :: string
  companyName :: string
  jobProfile :: string
  applicationStatus :: string
  date :: "string option"
  originalSubject :: string
  from' :: string

text \<open>The three fields the text-generation service is asked for (\<^verbatim>\<open>AIAnalysisResult\<close>).\<close>

record AIAnalysisResult =
  ai_companyName :: string
  ai_jobProfile :: string
  ai_applicationStatus :: string

text \<open>
  A message as the mail provider returns it (\<^verbatim>\<open>gmail_v1.Schema$Message\<close>): every
  field is optional there, and the code reads them through \<^verbatim>\<open>?.\<close> and \<^verbatim>\<open>||\<close>.
  \<open>bodyData\<close> is \<^verbatim>\<open>body?.data\<close>, absent when either the body or its data is.
\<close>

record header =
  hname :: "string option"
  hvalue :: "string option"

datatype part = Part
  (mimeType: "string option")
  (headers: "header list option")
  (bodyData: "string option")
  (parts: "part list option")

record message =
  msg_id :: "string option"
  msg_payload :: "part option"

text \<open>What the code can throw, and what \<^verbatim>\<open>String(error)\<close> prints of it.\<close>

datatype js_error =
    RangeError string
  | ReferenceError string
  | ProviderError string

fun String_of_error :: "js_error \<Rightarrow> string" where
  "String_of_error (RangeError m) = ''RangeError: '' @ m"
| "String_of_error (ReferenceError m) = ''ReferenceError: '' @ m"
| "String_of_error (ProviderError m) = ''Error: '' @ m"

fun message_of_error :: "js_error \<Rightarrow> string" where
  "message_of_error (RangeError m) = m"
| "message_of_error (ReferenceError m) = m"
| "message_of_error (ProviderError m) = m"

text \<open>
  The collaborators the routes call, as parameters: the mail provider's list and get
  operations (a rejected call is \<open>Inl\<close>), the text-generation service,
  \<^verbatim>\<open>JSON.parse\<close> read at the three expected fields (\<open>None\<close> when it throws),
  \<^verbatim>\<open>Buffer.from(_, 'base64').toString('utf8')\<close>, the time value of \<^verbatim>\<open>new Date(s)\<close>
  (\<open>None\<close> for an invalid date) and \<^verbatim>\<open>toISOString\<close> of a valid time value.
\<close>

record env =
  messages_list :: "string \<Rightarrow> nat \<Rightarrow> js_error + string list option"
  messages_get :: "string \<Rightarrow> js_error + message"
  generateContent :: "string \<Rightarrow> js_error + string"
  JSON_parse :: "string \<Rightarrow> AIAnalysisResult option"
  base64_toString :: "string \<Rightarrow> string"
  Date_parse :: "string \<Rightarrow> int option"
  toISOString :: "int \<Rightarrow> string"

section \<open>Strings\<close>

text \<open>The ASCII letters and digits by their codes, and the case mappings on them.\<close>

definition isUpper :: "char \<Rightarrow> bool" where
  "isUpper c = (65 \<le> (of_char c :: nat) \<and> (of_char c :: nat) \<le> 90)"

definition isLower :: "char \<Rightarrow> bool" where
  "isLower c = (97 \<le> (of_char c :: nat) \<and> (of_char c :: nat) \<le> 122)"

definition isDigit :: "char \<Rightarrow> bool" where
  "isDigit c = (48 \<le> (of_char c :: nat) \<and> (of_char c :: nat) \<le> 57)"

definition toLowerCase_char :: "char \<Rightarrow> char" where
  "toLowerCase_char c = (if isUpper c then char_of ((of_char c :: nat) + 32) else c)"

definition toUpperCase_char :: "char \<Rightarrow> char" where
  "toUpperCase_char c = (if isLower c then char_of ((of_char c :: nat) - 32) else c)"

definition toLowerCase :: "string \<Rightarrow> string" where
  "toLowerCase s = map toLowerCase_char s"

definition toUpperCase :: "string \<Rightarrow> string" where
  "toUpperCase s = map toUpperCase_char s"

text \<open>
  White space on ASCII: tab, line feed, vertical tab, form feed, carriage return,
  space. JavaScript's \<^verbatim>\<open>\s\<close> and \<^verbatim>\<open>trim\<close> also take the no-break space and the other
  Unicode spaces, which lie outside the ASCII texts modelled here.
\<close>

definition isSpace :: "char \<Rightarrow> bool" where
  "isSpace c = (c \<in> set [CHR 0x09, CHR 0x0A, CHR 0x0B, CHR 0x0C, CHR 0x0D, CHR 0x20])"

definition trim :: "string \<Rightarrow> string" where
  "trim s = rev (dropWhile isSpace (rev (dropWhile isSpace s)))"

text \<open>\<^verbatim>\<open>Array.prototype.join\<close> on an array of strings.\<close>

fun join :: "string \<Rightarrow> string list \<Rightarrow> string" where
  "join sep [] = []"
| "join sep [x] = x"
| "join sep (x # y # ys) = x @ sep @ join sep (y # ys)"

text \<open>
  \<^verbatim>\<open>String.prototype.split\<close> at every character of a set (a one-character string
  or a one-character class): the pieces between the separators, at least one piece.
\<close>

fun split_at :: "(char \<Rightarrow> bool) \<Rightarrow> string \<Rightarrow> string list" where
  "split_at sep [] = [[]]"
| "split_at sep (c # cs) =
     (case split_at sep cs of
        [] \<Rightarrow> (if sep c then [[], []] else [[c]])
      | w # ws \<Rightarrow> if sep c then [] # w # ws else (c # w) # ws)"

section \<open>Regular expressions\<close>

text \<open>
  The patterns of the source are JavaScript regular expressions, matched by
  backtracking. The syntax below covers what they use: literals, character classes
  (single characters, the ranges \<^verbatim>\<open>A-Z\<close>, \<^verbatim>\<open>a-z\<close> and \<^verbatim>\<open>0-9\<close>, \<^verbatim>\<open>\s\<close> and \<^verbatim>\<open>\S\<close>, possibly
  negated), the quantifiers \<^verbatim>\<open>+\<close>, \<^verbatim>\<open>+?\<close>
  and \<^verbatim>\<open>*\<close> on a class (every quantified atom of the source is a class), an optional
  group \<^verbatim>\<open>(?:r)?\<close>, sequence, alternation, the one capturing group, \<^verbatim>\<open>^\<close> and \<^verbatim>\<open>$\<close>
  (no pattern carries the multi-line flag).
\<close>

datatype citem = Ch char | Upper | Lower | Digit | Space | NonSpace

datatype cls = In "citem list" | NotIn "citem list"

datatype re =
    Lit string
  | One cls
  | Plus cls
  | PlusLazy cls
  | Star cls
  | StarLazy cls
  | Opt re
  | Seq re re
  | Alt re re
  | Grp re
  | Bol
  | Eol

record regex =
  pattern :: re
  ignoreCase :: bool

fun citem_has :: "citem \<Rightarrow> char \<Rightarrow> bool" where
  "citem_has (Ch a) c = (a = c)"
| "citem_has Upper c = isUpper c"
| "citem_has Lower c = isLower c"
| "citem_has Digit c = isDigit c"
| "citem_has Space c = isSpace c"
| "citem_has NonSpace c = (\<not> isSpace c)"

text \<open>
  Under the \<^verbatim>\<open>i\<close> flag a character is in a class when some member of the class has
  the same upper-case form; a negated class inverts the outcome.
\<close>

definition items_have :: "bool \<Rightarrow> citem list \<Rightarrow> char \<Rightarrow> bool" where
  "items_have icase its c =
     (if icase
      then list_ex (\<lambda>it. citem_has it (toUpperCase_char c) \<or> citem_has it (toLowerCase_char c)) its
      else list_ex (\<lambda>it. citem_has it c) its)"

fun cls_has :: "bool \<Rightarrow> cls \<Rightarrow> char \<Rightarrow> bool" where
  "cls_has icase (In its) c = items_have icase its c"
| "cls_has icase (NotIn its) c = (\<not> items_have icase its c)"

definition same_char :: "bool \<Rightarrow> char \<Rightarrow> char \<Rightarrow> bool" where
  "same_char icase a c = (if icase then toUpperCase_char a = toUpperCase_char c else a = c)"

text \<open>
  The backtracking matcher. It runs the stack \<open>k\<close> of what is still to match against
  the rest \<open>s\<close> of the input, \<open>pos\<close> characters into it, and returns the end of the
  first match in backtracking order with the extent of the capturing group.
  \<open>CloseGrp p\<close> closes the group that was opened at position \<open>p\<close>.
\<close>

datatype item = R re | CloseGrp nat

fun rsize :: "re \<Rightarrow> nat" where
  "rsize (Lit w) = Suc (length w)"
| "rsize (Opt r) = Suc (rsize r)"
| "rsize (Seq a b) = Suc (rsize a + rsize b)"
| "rsize (Alt a b) = Suc (rsize a + rsize b)"
| "rsize (Grp r) = Suc (Suc (rsize r))"
| "rsize _ = 1"

fun isize :: "item \<Rightarrow> nat" where
  "isize (R r) = rsize r"
| "isize (CloseGrp _) = 1"

function (sequential) bt :: "bool \<Rightarrow> item list \<Rightarrow> string \<Rightarrow> nat \<Rightarrow> (nat \<times> nat) option
    \<Rightarrow> (nat \<times> (nat \<times> nat) option) option" where
  "bt i [] s pos cap = Some (pos, cap)"
| "bt i (CloseGrp p # k) s pos cap = bt i k s pos (Some (p, pos))"
| "bt i (R (Lit []) # k) s pos cap = bt i k s pos cap"
| "bt i (R (Lit (w # ws)) # k) s pos cap =
     (case s of [] \<Rightarrow> None
      | x # xs \<Rightarrow> if same_char i w x then bt i (R (Lit ws) # k) xs (Suc pos) cap else None)"
| "bt i (R (One c) # k) s pos cap =
     (case s of [] \<Rightarrow> None
      | x # xs \<Rightarrow> if cls_has i c x then bt i k xs (Suc pos) cap else None)"
| "bt i (R (Plus c) # k) s pos cap =
     (case s of [] \<Rightarrow> None
      | x # xs \<Rightarrow> if cls_has i c x then bt i (R (Star c) # k) xs (Suc pos) cap else None)"
| "bt i (R (Star c) # k) s pos cap =
     (case s of [] \<Rightarrow> bt i k [] pos cap
      | x # xs \<Rightarrow>
          if cls_has i c x
          then (case bt i (R (Star c) # k) xs (Suc pos) cap of
                  Some m \<Rightarrow> Some m
                | None \<Rightarrow> bt i k (x # xs) pos cap)
          else bt i k (x # xs) pos cap)"
| "bt i (R (PlusLazy c) # k) s pos cap =
     (case s of [] \<Rightarrow> None
      | x # xs \<Rightarrow> if cls_has i c x then bt i (R (StarLazy c) # k) xs (Suc pos) cap else None)"
| "bt i (R (StarLazy c) # k) s pos cap =
     (case bt i k s pos cap of
        Some m \<Rightarrow> Some m
      | None \<Rightarrow>
          (case s of [] \<Rightarrow> None
           | x # xs \<Rightarrow>
               if cls_has i c x then bt i (R (StarLazy c) # k) xs (Suc pos) cap else None))"
| "bt i (R (Opt r) # k) s pos cap =
     (case bt i (R r # k) s pos cap of Some m \<Rightarrow> Some m | None \<Rightarrow> bt i k s pos cap)"
| "bt i (R (Seq a b) # k) s pos cap = bt i (R a # R b # k) s pos cap"
| "bt i (R (Alt a b) # k) s pos cap =
     (case bt i (R a # k) s pos cap of Some m \<Rightarrow> Some m | None \<Rightarrow> bt i (R b # k) s pos cap)"
| "bt i (R (Grp r) # k) s pos cap = bt i (R r # CloseGrp pos # k) s pos cap"
| "bt i (R Bol # k) s pos cap = (if pos = 0 then bt i k s pos cap else None)"
| "bt i (R Eol # k) s pos cap = (if s = [] then bt i k s pos cap else None)"
  by pat_completeness auto
termination
  by (relation "measures [\<lambda>(i, k, s, pos, cap). length s,
                          \<lambda>(i, k, s, pos, cap). sum_list (map isize k)]") auto

text \<open>
  \<^verbatim>\<open>text.match(rx)\<close> for a pattern without the \<^verbatim>\<open>g\<close> flag: the match at the leftmost
  start position that has one, with its index, the matched text (\<^verbatim>\<open>match[0]\<close>) and the
  captured text (\<^verbatim>\<open>match[1]\<close>, absent when the pattern has no group); \<open>None\<close> is
  \<^verbatim>\<open>null\<close>. \<^verbatim>\<open>rx.test(text)\<close> says whether there is a match.
\<close>

record match_result =
  index :: nat
  whole :: string
  group1 :: "string option"

fun exec_from :: "regex \<Rightarrow> string \<Rightarrow> string \<Rightarrow> nat \<Rightarrow> match_result option" where
  "exec_from rx text s pos =
     (case bt (ignoreCase rx) [R (pattern rx)] s pos None of
        Some (e, cap) \<Rightarrow>
          Some \<lparr>index = pos, whole = take (e - pos) s,
                group1 = map_option (\<lambda>(a, b). take (b - a) (drop a text)) cap\<rparr>
      | None \<Rightarrow> (case s of [] \<Rightarrow> None | _ # s' \<Rightarrow> exec_from rx text s' (Suc pos)))"

declare exec_from.simps [simp del]

definition match :: "string \<Rightarrow> regex \<Rightarrow> match_result option" where
  "match text rx = exec_from rx text text 0"

definition test :: "regex \<Rightarrow> string \<Rightarrow> bool" where
  "test rx text = (match text rx \<noteq> None)"

text \<open>\<^verbatim>\<open>text.replace(rx, '')\<close>: the first match is cut out.\<close>

definition replace_first :: "string \<Rightarrow> regex \<Rightarrow> string" where
  "replace_first text rx =
     (case match text rx of
        None \<Rightarrow> text
      | Some m \<Rightarrow> take (index m) text @ drop (index m + length (whole m)) text)"

text \<open>Shorthands for writing the patterns: alternatives, sequences, and words
  separated by \<^verbatim>\<open>\s+\<close>.\<close>

fun alts :: "re list \<Rightarrow> re" where
  "alts [] = Lit []"
| "alts [r] = r"
| "alts (r # rs) = Alt r (alts rs)"

fun seqs :: "re list \<Rightarrow> re" where
  "seqs [] = Lit []"
| "seqs [r] = r"
| "seqs (r # rs) = Seq r (seqs rs)"

definition whitespace :: cls where
  "whitespace = In [Space]"

fun phrase :: "string list \<Rightarrow> re" where
  "phrase [] = Lit []"
| "phrase [w] = Lit w"
| "phrase (w # v # vs) = Seq (Lit w) (Seq (Plus whitespace) (phrase (v # vs)))"

definition words :: "string list \<Rightarrow> re" where
  "words vs = alts (map Lit vs)"

section \<open>Body extraction\<close>

text \<open>
  \<^verbatim>\<open>getEmailBody\<close> (the same text in \<^verbatim>\<open>src/app/api/gmail/route.ts\<close> and in
  \<^verbatim>\<open>src/unnamed/part_001\<close>). A string is truthy when it is not empty; an array of
  parts is truthy even when empty. The children are filtered and mapped, not
  visited recursively.
\<close>

definition nl :: string where
  "nl = [CHR 0x0A]"

definition truthy :: "string option \<Rightarrow> bool" where
  "truthy v = (case v of None \<Rightarrow> False | Some x \<Rightarrow> x \<noteq> [])"

definition or_empty :: "string option \<Rightarrow> string" where
  "or_empty v = (case v of None \<Rightarrow> [] | Some x \<Rightarrow> x)"

definition getEmailBody :: "env \<Rightarrow> part option \<Rightarrow> string" where
  "getEmailBody env payload =
     (case payload of
        None \<Rightarrow> []
      | Some p \<Rightarrow>
          if mimeType p = Some ''text/plain'' \<and> truthy (bodyData p)
          then base64_toString env (or_empty (bodyData p))
          else (case parts p of
                  Some ps \<Rightarrow>
                    join nl
                      (map (\<lambda>part. if truthy (bodyData part)
                                    then base64_toString env (or_empty (bodyData part))
                                    else [])
                         (filter (\<lambda>part. mimeType part = Some ''text/plain'') ps))
                | None \<Rightarrow> []))"

section \<open>The AI classifier\<close>

text \<open>
  \<^verbatim>\<open>analyzeEmailWithAI\<close>: the prompt is the template with the subject, the sender and
  the first 1000 characters of the body; the answer is searched for
  \<^verbatim>\<open>/\{[\s\S]*\}/\<close> and the match is parsed. Whatever is thrown on the way is caught
  and the result is \<^verbatim>\<open>null\<close>.
\<close>

definition dq :: string where
  "dq = [CHR 0x22]"

definition prompt :: "string \<Rightarrow> string \<Rightarrow> string \<Rightarrow> string" where
  "prompt subject body from =
     nl @ ''      Analyze this job application email and extract information in JSON format.''
     @ nl @ ''      ''
     @ nl @ ''      Email Subject: '' @ dq @ subject @ dq
     @ nl @ ''      Email From: '' @ dq @ from @ dq
     @ nl @ ''      Email Body: '' @ dq @ take 1000 body @ dq
     @ nl
     @ nl @ ''      Return a JSON object with exactly these fields:''
     @ nl @ ''      {''
     @ nl @ ''        '' @ dq @ ''companyName'' @ dq @ '': '' @ dq
          @ ''name of the company (extract from email domain if unclear)'' @ dq @ '',''
     @ nl @ ''        '' @ dq @ ''jobProfile'' @ dq @ '': '' @ dq @ ''the job position/role'' @ dq @ '',''
     @ nl @ ''        '' @ dq @ ''applicationStatus'' @ dq @ '': '' @ dq
          @ ''one of: Applied, Application Received, Interview, Rejected, or Offer'' @ dq
     @ nl @ ''      }''
     @ nl
     @ nl @ ''      Base your analysis on:''
     @ nl @ ''      1. Common recruiting email patterns''
     @ nl @ ''      2. Context clues from subject and body''
     @ nl @ ''      3. Email sender domain''
     @ nl @ ''      4. Status keywords and phrases''
     @ nl @ ''    ''"

definition jsonPattern :: regex where
  "jsonPattern =
     \<lparr>pattern = seqs [Lit ''{'', Star (In [Space, NonSpace]), Lit ''}''], ignoreCase = False\<rparr>"

definition analyzeEmailWithAI :: "env \<Rightarrow> string \<Rightarrow> string \<Rightarrow> string \<Rightarrow> AIAnalysisResult option" where
  "analyzeEmailWithAI env subject body from =
     (case generateContent env (prompt subject body from) of
        Inl e \<Rightarrow> None
      | Inr text \<Rightarrow>
          (case match text jsonPattern of
             None \<Rightarrow> None
           | Some jsonMatch \<Rightarrow> JSON_parse env (whole jsonMatch)))"

section \<open>The message classifier of the full-sync route\<close>

text \<open>
  \<^verbatim>\<open>extractEmailInfo\<close> of \<^verbatim>\<open>src/app/api/gmail/route.ts\<close>.
  \<^verbatim>\<open>headers.find(h => h.name === n)?.value\<close> is the value of the first header of that
  name. \<^verbatim>\<open>date ? new Date(date).toISOString() : null\<close> is \<^verbatim>\<open>null\<close> for an absent or empty
  header; on any other text the date is built and \<^verbatim>\<open>toISOString\<close> throws a
  \<^verbatim>\<open>RangeError\<close> when the date is invalid. The AI result is read at the three fields
  of its declared type; the code spreads the whole parsed object after \<^verbatim>\<open>id\<close>, so
  further keys of the answer, an \<^verbatim>\<open>id\<close> key among them, would pass into the record.
\<close>

definition header_value :: "header list \<Rightarrow> string \<Rightarrow> string option" where
  "header_value hs n =
     (case find (\<lambda>h. hname h = Some n) hs of None \<Rightarrow> None | Some h \<Rightarrow> hvalue h)"

definition message_headers :: "message \<Rightarrow> header list" where
  "message_headers details =
     (case msg_payload details of
        None \<Rightarrow> []
      | Some p \<Rightarrow> (case headers p of None \<Rightarrow> [] | Some hs \<Rightarrow> hs))"

definition iso_date :: "env \<Rightarrow> string \<Rightarrow> js_error + string option" where
  "iso_date env d =
     (if d = [] then Inr None
      else (case Date_parse env d of
              None \<Rightarrow> Inl (RangeError ''Invalid time value'')
            | Some t \<Rightarrow> Inr (Some (toISOString env t))))"

definition angleAddress :: regex where
  "angleAddress =
     \<lparr>pattern = seqs [Lit ''<'', Plus (NotIn [Ch CHR ''>'']), Lit ''>''], ignoreCase = False\<rparr>"

definition extractEmailInfo :: "env \<Rightarrow> message \<Rightarrow> js_error + EmailInfo" where
  "extractEmailInfo env details =
     (let hs = message_headers details;
          subject = or_empty (header_value hs ''Subject'');
          from = or_empty (header_value hs ''From'');
          date = or_empty (header_value hs ''Date'');
          body = getEmailBody env (msg_payload details)
      in case analyzeEmailWithAI env subject body from of
           Some aiResult \<Rightarrow>
             (case iso_date env date of
                Inl e \<Rightarrow> Inl e
              | Inr d \<Rightarrow>
                  Inr \<lparr>id' = or_empty (msg_id details),
                       companyName = ai_companyName aiResult,
                       jobProfile = ai_jobProfile aiResult,
                       applicationStatus = ai_applicationStatus aiResult,
                       date = d,
                       originalSubject = subject,
                       from' = trim (replace_first from angleAddress)\<rparr>)
         | None \<Rightarrow>
             (case iso_date env date of
                Inl e \<Rightarrow> Inl e
              | Inr d \<Rightarrow>
                  Inr \<lparr>id' = or_empty (msg_id details),
                       companyName = ''Unknown Company'',
                       jobProfile = ''Unknown Position'',
                       applicationStatus = ''Applied'',
                       date = d,
                       originalSubject = subject,
                       from' = trim (replace_first from angleAddress)\<rparr>))"

section \<open>The routes\<close>

text \<open>
  A response is a status and a JSON body: a list of records, or an error object with
  an optional \<^verbatim>\<open>details\<close> field. \<^verbatim>\<open>NextResponse.json(x)\<close> has status 200.
\<close>

datatype json_body = Records "EmailInfo list" | Error_body string "string option"

record response =
  status :: nat
  json :: json_body

text \<open>
  \<^verbatim>\<open>Promise.all\<close>: the results in the order of the tasks when all succeed. When some
  task rejects, the error reported here is that of the first rejecting task in list
  order; which one the running program reports depends on the order of completion.
\<close>

fun Promise_all :: "(js_error + 'a) list \<Rightarrow> js_error + 'a list" where
  "Promise_all [] = Inr []"
| "Promise_all (Inl e # ts) = Inl e"
| "Promise_all (Inr x # ts) = (case Promise_all ts of Inl e \<Rightarrow> Inl e | Inr xs \<Rightarrow> Inr (x # xs))"

definition subject_query :: string where
  "subject_query = ''subject:(job OR application OR applied OR position OR opportunity OR software)''"

text \<open>
  \<^verbatim>\<open>GET\<close> of \<^verbatim>\<open>src/app/api/gmail/route.ts\<close>. \<open>accessToken\<close> is \<^verbatim>\<open>session?.accessToken\<close>;
  \<open>full_sync_task\<close> is the function mapped over the listed messages.
\<close>

definition full_sync_task :: "env \<Rightarrow> string \<Rightarrow> js_error + EmailInfo" where
  "full_sync_task env mid =
     (case messages_get env mid of
        Inl e \<Rightarrow> Inl e
      | Inr details \<Rightarrow> extractEmailInfo env details)"

definition GET :: "env \<Rightarrow> string option \<Rightarrow> response" where
  "GET env accessToken =
     (if \<not> truthy accessToken
      then \<lparr>status = 401, json = Error_body ''Not authenticated'' None\<rparr>
      else
        (case messages_list env subject_query 100 of
           Inl e \<Rightarrow>
             \<lparr>status = 500, json = Error_body ''Failed to fetch emails'' (Some (String_of_error e))\<rparr>
         | Inr found \<Rightarrow>
             (let messages = (case found of None \<Rightarrow> [] | Some ms \<Rightarrow> ms)
              in if length messages = 0 then \<lparr>status = 200, json = Records []\<rparr>
                 else
                   (case Promise_all (map (full_sync_task env) messages) of
                      Inl e \<Rightarrow>
                        \<lparr>status = 500,
                         json = Error_body ''Failed to fetch emails'' (Some (String_of_error e))\<rparr>
                    | Inr messageDetails \<Rightarrow> \<lparr>status = 200, json = Records messageDetails\<rparr>))))"

text \<open>
  \<^verbatim>\<open>POST\<close> of \<^verbatim>\<open>src/app/api/gmail/new/route.ts\<close>. The time value of
  \<^verbatim>\<open>new Date(lastFetchTime)\<close> is valid up to 8.64e15 milliseconds either side of the
  epoch; beyond, \<^verbatim>\<open>toISOString\<close> throws outside the \<^verbatim>\<open>try\<close> block and the error leaves
  the handler (\<open>Inl\<close>). The module calls \<^verbatim>\<open>extractEmailInfo(details)\<close> but neither
  defines nor imports that name (the function of \<^verbatim>\<open>route.ts\<close> is not exported), so
  evaluating the call throws a \<^verbatim>\<open>ReferenceError\<close> inside the task
  (\<open>extractEmailInfo_new\<close>), which the \<^verbatim>\<open>catch\<close> block turns into the 500 response.
\<close>

definition extractEmailInfo_new :: "env \<Rightarrow> message \<Rightarrow> js_error + EmailInfo" where
  "extractEmailInfo_new env details = Inl (ReferenceError ''extractEmailInfo is not defined'')"

definition incremental_task :: "env \<Rightarrow> string \<Rightarrow> js_error + EmailInfo" where
  "incremental_task env mid =
     (case messages_get env mid of
        Inl e \<Rightarrow> Inl e
      | Inr details \<Rightarrow> extractEmailInfo_new env details)"

definition valid_time :: "int \<Rightarrow> bool" where
  "valid_time t = (\<bar>t\<bar> \<le> 8640000000000000)"

definition POST :: "env \<Rightarrow> string option \<Rightarrow> int \<Rightarrow> js_error + response" where
  "POST env accessToken lastFetchTime =
     (if \<not> truthy accessToken
      then Inr \<lparr>status = 401, json = Error_body ''Not authenticated'' None\<rparr>
      else if \<not> valid_time lastFetchTime then Inl (RangeError ''Invalid time value'')
      else
        (let afterDate = toISOString env lastFetchTime
         in case messages_list env (subject_query @ '' after:'' @ afterDate) 1000 of
              Inl e \<Rightarrow> Inr \<lparr>status = 500, json = Error_body ''Failed to fetch new emails'' None\<rparr>
            | Inr found \<Rightarrow>
                (let messages = (case found of None \<Rightarrow> [] | Some ms \<Rightarrow> ms)
                 in if length messages = 0 then Inr \<lparr>status = 200, json = Records []\<rparr>
                    else
                      (case Promise_all (map (incremental_task env) messages) of
                         Inl e \<Rightarrow>
                           Inr \<lparr>status = 500, json = Error_body ''Failed to fetch new emails'' None\<rparr>
                       | Inr messageDetails \<Rightarrow>
                           Inr \<lparr>status = 200, json = Records messageDetails\<rparr>))))"

section \<open>The pattern-matching classifier\<close>

text \<open>
  The part of \<^verbatim>\<open>extractEmailInfo\<close> in \<^verbatim>\<open>src/unnamed/part_001\<close> that runs when the AI
  classifier returns \<^verbatim>\<open>null\<close>. The class \<^verbatim>\<open>[-|]\<close> of the source also lists the en dash
  and the em dash, which lie outside ASCII.
\<close>

definition nameChar :: cls where
  "nameChar =
     In [Upper, Lower, Digit, Space, Ch CHR ''&'', Ch CHR ''.'']"

definition dashOrPipe :: cls where
  "dashOrPipe = In [Ch CHR ''-'', Ch CHR ''|'']"

definition companyPatterns :: "regex list" where
  "companyPatterns =
     [\<lparr>pattern =
         seqs [words [''at'', ''@'', ''from''], Plus whitespace, Grp (PlusLazy nameChar),
               Alt (Seq (Plus whitespace) (words [''for'', ''position'', ''role'', ''about'', ''regarding'']))
                   (Seq (Star whitespace) Eol)],
       ignoreCase = True\<rparr>,
      \<lparr>pattern =
         seqs [Bol, Grp (PlusLazy nameChar), Alt (Seq (Star whitespace) (One dashOrPipe)) Eol],
       ignoreCase = False\<rparr>,
      \<lparr>pattern =
         seqs [Grp (PlusLazy nameChar), Plus whitespace,
               words [''Careers'', ''Jobs'', ''Hiring'', ''Recruitment'']],
       ignoreCase = True\<rparr>,
      \<lparr>pattern =
         seqs [words [''workday'', ''greenhouse'', ''lever'', ''indeed'', ''linkedin''], Plus whitespace,
               phrase [''on'', ''behalf'', ''of''], Plus whitespace, Grp (Plus nameChar)],
       ignoreCase = True\<rparr>,
      \<lparr>pattern =
         seqs [alts [phrase [''welcome'', ''to''], Lit ''joining'',
                     seqs [Lit ''application'', Plus whitespace, words [''at'', ''with'', ''for'']]],
               Plus whitespace, Grp (PlusLazy nameChar),
               Alt (Seq (Plus whitespace) (Lit ''team''))
                   (Seq (Star whitespace) (One (In [Ch CHR ''.'', Ch CHR ''!''])))],
       ignoreCase = True\<rparr>]"

definition titleChar :: cls where
  "titleChar = NotIn [Ch CHR ''-'', Ch CHR ''|'', Ch CHR ''@'', Ch CHR 0x0A, Ch CHR ''.'']"

definition hyphenOrSpace :: cls where
  "hyphenOrSpace = In [Ch CHR ''-'', Ch CHR '' '']"

definition rolePatterns :: "regex list" where
  "rolePatterns =
     [\<lparr>pattern =
         seqs [words [''for'', ''position:'', ''role:''], Plus whitespace, Grp (PlusLazy titleChar),
               Alt (Seq (Plus whitespace) (Lit ''at'')) Eol],
       ignoreCase = True\<rparr>,
      \<lparr>pattern =
         seqs [One dashOrPipe, Star whitespace, Grp (PlusLazy titleChar),
               Alt (Seq (Plus whitespace) (Lit ''at'')) Eol],
       ignoreCase = True\<rparr>,
      \<lparr>pattern =
         seqs [alts [Lit ''Software'', Lit ''Senior'', Lit ''Junior'', Lit ''Lead'',
                     seqs [Lit ''Full'', One hyphenOrSpace, Lit ''Stack''],
                     seqs [Lit ''Front'', One hyphenOrSpace, Lit ''End''],
                     seqs [Lit ''Back'', One hyphenOrSpace, Lit ''End''],
                     Lit ''DevOps'', Lit ''Cloud''],
               Plus whitespace, words [''Engineer'', ''Developer'', ''Architect'', ''Developer''],
               Star (NotIn [Ch CHR '','', Ch CHR 0x0A])],
       ignoreCase = True\<rparr>,
      \<lparr>pattern =
         seqs [words [''position'', ''role'', ''job''], Plus whitespace, words [''of'', ''as'', '':''],
               Plus whitespace, Grp (Plus (NotIn [Ch CHR '','', Ch CHR 0x0A]))],
       ignoreCase = True\<rparr>,
      \<lparr>pattern =
         seqs [phrase [''applying'', ''for''], Plus whitespace, Opt (Seq (Lit ''the'') (Plus whitespace)),
               Opt (seqs [phrase [''role'', ''of''], Plus whitespace]),
               Grp (Plus (NotIn [Ch CHR '','', Ch CHR 0x0A, Ch CHR ''.'']))],
       ignoreCase = True\<rparr>,
      \<lparr>pattern =
         seqs [Lit ''position:'', Star whitespace,
               Grp (Plus (NotIn [Ch CHR '','', Ch CHR 0x0A, Ch CHR ''.'']))],
       ignoreCase = True\<rparr>]"

text \<open>
  \<^verbatim>\<open>statusPatterns\<close>: \<^verbatim>\<open>Object.entries\<close> lists the keys of the object literal in the
  order they are written.
\<close>

definition statusPatterns :: "(string \<times> regex list) list" where
  "statusPatterns =
     [(''Rejected'',
       [\<lparr>pattern =
           alts [Lit ''regret'', Lit ''unfortunately'', phrase [''not'', ''moving'', ''forward''],
                 phrase [''not'', ''selected''], phrase [''not'', ''proceed''], Lit ''unsuccessful''],
         ignoreCase = True\<rparr>,
        \<lparr>pattern = phrase [''thank'', ''you'', ''for'', ''your'', ''interest''],
         ignoreCase = True\<rparr>,
        \<lparr>pattern =
           alts [phrase [''other'', ''candidates''], phrase [''better'', ''suited''],
                 phrase [''not'', ''the'', ''best'', ''fit'']],
         ignoreCase = True\<rparr>]),
      (''Interview'',
       [\<lparr>pattern =
           alts [Lit ''interview'', phrase [''next'', ''steps''], phrase [''move'', ''forward''],
                 phrase [''schedule'', ''a'', ''call'']],
         ignoreCase = True\<rparr>,
        \<lparr>pattern =
           Alt (seqs [Lit ''technical'', Plus whitespace, words [''round'', ''assessment'', ''challenge'']])
               (phrase [''coding'', ''challenge'']),
         ignoreCase = True\<rparr>,
        \<lparr>pattern =
           seqs [phrase [''available'', ''for''], Plus whitespace, Opt (Seq (Lit ''a'') (Plus whitespace)),
                 words [''chat'', ''call'', ''meeting'']],
         ignoreCase = True\<rparr>]),
      (''Offer'',
       [\<lparr>pattern =
           alts [Lit ''offer'', Lit ''congratulations'', phrase [''welcome'', ''aboard''],
                 Lit ''joining'', phrase [''start'', ''date'']],
         ignoreCase = True\<rparr>,
        \<lparr>pattern =
           Alt (seqs [phrase [''pleased'', ''to''], Plus whitespace, words [''offer'', ''inform'']])
               (phrase [''formal'', ''offer'']),
         ignoreCase = True\<rparr>]),
      (''Application Received'',
       [\<lparr>pattern =
           seqs [words [''received'', ''confirmed'', ''submitted'', ''reviewing'', ''processing''],
                 Plus whitespace, Opt (Seq (Lit ''your'') (Plus whitespace)), Lit ''application''],
         ignoreCase = True\<rparr>,
        \<lparr>pattern =
           seqs [phrase [''thank'', ''you'', ''for''], Plus whitespace,
                 alts [Lit ''applying'', phrase [''your'', ''application''],
                       phrase [''your'', ''interest'']]],
         ignoreCase = True\<rparr>,
        \<lparr>pattern =
           seqs [Lit ''application'', Plus whitespace, words [''confirmation'', ''received'', ''submitted'']],
         ignoreCase = True\<rparr>])]"

text \<open>
  The two \<^verbatim>\<open>for\<close> loops over a pattern list: the first pattern whose match has a
  non-empty \<^verbatim>\<open>match[1]\<close> gives the trimmed capture, and the loop breaks.
\<close>

fun first_capture :: "regex list \<Rightarrow> string \<Rightarrow> string option" where
  "first_capture [] text = None"
| "first_capture (p # ps) text =
     (case match text p of
        None \<Rightarrow> first_capture ps text
      | Some m \<Rightarrow>
          if truthy (group1 m) then Some (trim (or_empty (group1 m)))
          else first_capture ps text)"

text \<open>The loop over the status groups: the first group one of whose patterns tests true.\<close>

fun first_status :: "(string \<times> regex list) list \<Rightarrow> string \<Rightarrow> string option" where
  "first_status [] text = None"
| "first_status ((st, patterns) # groups) text =
     (if list_ex (\<lambda>p. test p text) patterns then Some st else first_status groups text)"

definition emailDomainPattern :: regex where
  "emailDomainPattern =
     \<lparr>pattern = seqs [Lit ''@'', Grp (Plus (NotIn [Ch CHR ''>''])), Lit ''>''], ignoreCase = False\<rparr>"

definition siteWords :: regex where
  "siteWords =
     \<lparr>pattern = words [''careers'', ''jobs'', ''hr'', ''recruiting'', ''talent''], ignoreCase = True\<rparr>"

definition capitalize :: "string \<Rightarrow> string" where
  "capitalize word = (case word of [] \<Rightarrow> [] | c # cs \<Rightarrow> toUpperCase_char c # cs)"

definition companyDomain_of :: "string \<Rightarrow> string" where
  "companyDomain_of from =
     (let emailDomain = (case match from emailDomainPattern of
                           None \<Rightarrow> []
                         | Some m \<Rightarrow> or_empty (group1 m))
      in case split_at (\<lambda>c. c = CHR ''.'') emailDomain of [] \<Rightarrow> [] | label # _ \<Rightarrow> label)"

definition domain_name :: "string \<Rightarrow> string" where
  "domain_name companyDomain =
     trim (join '' ''
       (map capitalize
          (split_at (\<lambda>c. c = CHR ''.'' \<or> c = CHR ''-'') (replace_first companyDomain siteWords))))"

definition companyName_of :: "string \<Rightarrow> string \<Rightarrow> string \<Rightarrow> string" where
  "companyName_of subject body from =
     (let companyDomain = companyDomain_of from;
          companyName = (case first_capture companyPatterns (subject @ '' '' @ body) of
                           None \<Rightarrow> ''Unknown Company''
                         | Some n \<Rightarrow> n)
      in if companyName = ''Unknown Company'' \<and> companyDomain \<noteq> []
         then domain_name companyDomain
         else companyName)"

definition jobProfile_of :: "string \<Rightarrow> string \<Rightarrow> string" where
  "jobProfile_of subject body =
     (case first_capture rolePatterns (subject @ '' '' @ body) of
        None \<Rightarrow> ''Unknown Position''
      | Some t \<Rightarrow> t)"

definition applicationStatus_of :: "string \<Rightarrow> string \<Rightarrow> string" where
  "applicationStatus_of subject body =
     (let combinedText = toLowerCase (subject @ '' '' @ body)
      in case first_status statusPatterns combinedText of
           None \<Rightarrow> ''Applied''
         | Some st \<Rightarrow> st)"

text \<open>
  \<^verbatim>\<open>extractEmailInfo\<close> of \<^verbatim>\<open>src/unnamed/part_001\<close>. It copies \<^verbatim>\<open>details.data.id\<close> as it
  is; an absent id is the empty string here, as in the version of \<^verbatim>\<open>route.ts\<close>.
\<close>

definition extractEmailInfo_001 :: "env \<Rightarrow> message \<Rightarrow> js_error + EmailInfo" where
  "extractEmailInfo_001 env details =
     (let hs = message_headers details;
          subject = or_empty (header_value hs ''Subject'');
          from = or_empty (header_value hs ''From'');
          date = or_empty (header_value hs ''Date'');
          body = getEmailBody env (msg_payload details)
      in case analyzeEmailWithAI env subject body from of
           Some aiResult \<Rightarrow>
             (case iso_date env date of
                Inl e \<Rightarrow> Inl e
              | Inr d \<Rightarrow>
                  Inr \<lparr>id' = or_empty (msg_id details),
                       companyName = ai_companyName aiResult,
                       jobProfile = ai_jobProfile aiResult,
                       applicationStatus = ai_applicationStatus aiResult,
                       date = d,
                       originalSubject = subject,
                       from' = trim (replace_first from angleAddress)\<rparr>)
         | None \<Rightarrow>
             (case iso_date env date of
                Inl e \<Rightarrow> Inl e
              | Inr d \<Rightarrow>
                  Inr \<lparr>id' = or_empty (msg_id details),
                       companyName = companyName_of subject body from,
                       jobProfile = jobProfile_of subject body,
                       applicationStatus = applicationStatus_of subject body,
                       date = d,
                       originalSubject = subject,
                       from' = trim (replace_first from angleAddress)\<rparr>))"

section \<open>The dashboard's record set\<close>

text \<open>
  A JavaScript \<^verbatim>\<open>Map\<close> keeps its keys in the order of their first insertion;
  \<^verbatim>\<open>set\<close> on a key that is present replaces the value where it stands. That is
  \<^const>\<open>AList.update\<close> on an association list. \<^verbatim>\<open>new Map(entries)\<close> sets the entries
  from left to right, and \<^verbatim>\<open>values()\<close> lists the values in key order.
\<close>

definition new_Map :: "('k \<times> 'v) list \<Rightarrow> ('k \<times> 'v) list" where
  "new_Map entries = foldl (\<lambda>m (k, v). AList.update k v m) [] entries"

definition Map_values :: "('k \<times> 'v) list \<Rightarrow> 'v list" where
  "Map_values m = map snd m"

text \<open>
  The state update inside \<^verbatim>\<open>updateEmailsWithNewData\<close>:
  \<^verbatim>\<open>prev => { const combined = [...newEmails, ...prev];
    return Array.from(new Map(combined.map(item => [item.id, item])).values()); }\<close>
\<close>

definition mergeEmails :: "EmailInfo list \<Rightarrow> EmailInfo list \<Rightarrow> EmailInfo list" where
  "mergeEmails newEmails prev =
     (let combined = newEmails @ prev
      in Map_values (new_Map (map (\<lambda>item. (id' item, item)) combined)))"

text \<open>
  The state of the page component that a sync pass touches, and the state setters
  it calls. A pass is modelled by the sequence of setter calls it makes, so that
  counting the calls is possible; running the sequence gives the next state.
  \<open>UpdateJobEmails\<close> is \<^verbatim>\<open>setJobEmails(prev => ...)\<close> with the merge above, \<open>Notify\<close>
  the desktop notification, which changes no state.
\<close>

record page_state =
  jobEmails :: "EmailInfo list"
  loading :: bool
  lastFetchTime :: int
  error :: "string option"

datatype action =
    SetJobEmails "EmailInfo list"
  | UpdateJobEmails "EmailInfo list"
  | SetLastFetchTime int
  | SetError "string option"
  | SetLoading bool
  | Notify nat

fun apply_action :: "page_state \<Rightarrow> action \<Rightarrow> page_state" where
  "apply_action st (SetJobEmails data) = st\<lparr>jobEmails := data\<rparr>"
| "apply_action st (UpdateJobEmails newEmails) =
     st\<lparr>jobEmails := mergeEmails newEmails (jobEmails st)\<rparr>"
| "apply_action st (SetLastFetchTime t) = st\<lparr>lastFetchTime := t\<rparr>"
| "apply_action st (SetError e) = st\<lparr>error := e\<rparr>"
| "apply_action st (SetLoading b) = st\<lparr>loading := b\<rparr>"
| "apply_action st (Notify n) = st"

definition run_actions :: "page_state \<Rightarrow> action list \<Rightarrow> page_state" where
  "run_actions st acts = foldl apply_action st acts"

fun is_SetLastFetchTime :: "action \<Rightarrow> bool" where
  "is_SetLastFetchTime (SetLastFetchTime t) = True"
| "is_SetLastFetchTime _ = False"

definition watermark_writes :: "action list \<Rightarrow> nat" where
  "watermark_writes acts = length (filter is_SetLastFetchTime acts)"

text \<open>
  What \<^verbatim>\<open>fetch\<close> gives the page: a rejection (a network failure, with its message) or a
  response. \<^verbatim>\<open>response.ok\<close> holds for the statuses 200 to 299.
\<close>

datatype fetched = Fetch_failed string | Fetched response

definition response_ok :: "response \<Rightarrow> bool" where
  "response_ok r = (200 \<le> status r \<and> status r \<le> 299)"

text \<open>
  \<^verbatim>\<open>updateEmailsWithNewData\<close>; \<open>now\<close> is what \<^verbatim>\<open>Date.now()\<close> returns when it is called.
\<close>

definition updateEmailsWithNewData :: "EmailInfo list \<Rightarrow> int \<Rightarrow> action list" where
  "updateEmailsWithNewData newEmails now = [UpdateJobEmails newEmails, SetLastFetchTime now]"

text \<open>
  \<^verbatim>\<open>showNotification\<close>; \<open>permission\<close> is \<^verbatim>\<open>Notification.permission\<close>, absent in a browser
  without the notification interface, where reading it throws.
\<close>

definition showNotification :: "string option \<Rightarrow> nat \<Rightarrow> js_error + action list" where
  "showNotification permission count =
     (case permission of
        None \<Rightarrow> Inl (ReferenceError ''Notification is not defined'')
      | Some p \<Rightarrow> if p = ''granted'' then Inr [Notify count] else Inr [])"

text \<open>
  \<^verbatim>\<open>checkNewEmails\<close>, given the outcome of the request to the incremental route. A
  body that is not an array has no positive \<^verbatim>\<open>length\<close>. \<open>st\<close> is the state as the
  function sees it: the timer callback reads \<^verbatim>\<open>loading\<close> and \<^verbatim>\<open>lastFetchTime\<close> as they
  were when the effect that installed it last ran.
\<close>

definition checkNewEmails ::
    "bool \<Rightarrow> page_state \<Rightarrow> fetched \<Rightarrow> string option \<Rightarrow> int \<Rightarrow> action list" where
  "checkNewEmails session st res permission now =
     (if \<not> session \<or> loading st then []
      else
        (case res of
           Fetch_failed m \<Rightarrow> [SetError (Some m)]
         | Fetched response \<Rightarrow>
             if \<not> response_ok response then [SetError (Some ''Failed to fetch new emails'')]
             else
               (case json response of
                  Error_body e d \<Rightarrow> []
                | Records newEmails \<Rightarrow>
                    if length newEmails > 0
                    then updateEmailsWithNewData newEmails now
                         @ (case showNotification permission (length newEmails) of
                              Inl e \<Rightarrow> [SetError (Some (message_of_error e))]
                            | Inr acts \<Rightarrow> acts)
                    else [])))"

text \<open>
  \<^verbatim>\<open>fetchEmails\<close>, given the outcome of the request to the full-sync route. The routes
  send an error object only with the statuses 401 and 500; for such a body under a
  2xx status the model keeps the records, which are not a list there.
\<close>

definition fetchEmails :: "bool \<Rightarrow> fetched \<Rightarrow> int \<Rightarrow> action list" where
  "fetchEmails session res now =
     (if \<not> session then []
      else
        [SetLoading True, SetError None]
        @ (case res of
             Fetch_failed m \<Rightarrow> [SetError (Some m)]
           | Fetched response \<Rightarrow>
               (case json response of
                  Error_body e d \<Rightarrow>
                    if \<not> response_ok response
                    then [SetError (Some (if e \<noteq> [] then e else ''Failed to fetch emails''))]
                    else [SetLastFetchTime now]
                | Records data \<Rightarrow>
                    if \<not> response_ok response then [SetError (Some ''Failed to fetch emails'')]
                    else [SetJobEmails data, SetLastFetchTime now]))
        @ [SetLoading False])"

text \<open>
  A whole incremental pass: the page posts its watermark, the route answers, the page
  applies the answer. An error that leaves the route handler reaches the page as a
  500 response of the framework. \<open>accessToken\<close> is the credential the server sees.
\<close>

definition fetch_new :: "env \<Rightarrow> string option \<Rightarrow> int \<Rightarrow> fetched" where
  "fetch_new env accessToken t =
     (case POST env accessToken t of
        Inl e \<Rightarrow> Fetched \<lparr>status = 500, json = Error_body ''Internal Server Error'' None\<rparr>
      | Inr r \<Rightarrow> Fetched r)"

definition incremental_pass ::
    "env \<Rightarrow> string option \<Rightarrow> string option \<Rightarrow> int \<Rightarrow> page_state \<Rightarrow> page_state" where
  "incremental_pass env accessToken permission now st =
     run_actions st
       (checkNewEmails True st (fetch_new env accessToken (lastFetchTime st)) permission now)"

text \<open>The last record of a list that carries a given id, if any.\<close>

definition lastWithId :: "string \<Rightarrow> EmailInfo list \<Rightarrow> EmailInfo option" where
  "lastWithId x rs = find (\<lambda>r. id' r = x) (rev rs)"

section \<open>Notions used in the statements\<close>

text \<open>The classifier call that \<^verbatim>\<open>extractEmailInfo\<close> makes on a message, and the
  \<^verbatim>\<open>Date\<close> header it reads.\<close>

definition classifier_result :: "env \<Rightarrow> message \<Rightarrow> AIAnalysisResult option" where
  "classifier_result env details =
     analyzeEmailWithAI env
       (or_empty (header_value (message_headers details) ''Subject''))
       (getEmailBody env (msg_payload details))
       (or_empty (header_value (message_headers details) ''From''))"

definition date_header :: "message \<Rightarrow> string" where
  "date_header details = or_empty (header_value (message_headers details) ''Date'')"

text \<open>What a direct child contributes to the body, and a child without its own children.\<close>

definition child_text :: "env \<Rightarrow> part \<Rightarrow> string" where
  "child_text env p = (if truthy (bodyData p) then base64_toString env (or_empty (bodyData p)) else [])"

definition is_text_plain :: "part \<Rightarrow> bool" where
  "is_text_plain p = (mimeType p = Some ''text/plain'')"

definition prune :: "part \<Rightarrow> part" where
  "prune p = Part (mimeType p) (headers p) (bodyData p) None"

text \<open>Whether an error body carries the \<^verbatim>\<open>details\<close> field.\<close>

fun has_details :: "json_body \<Rightarrow> bool" where
  "has_details (Error_body e d) = (d \<noteq> None)"
| "has_details (Records rs) = False"

text \<open>The query of the incremental route for a watermark.\<close>

definition incremental_query :: "env \<Rightarrow> int \<Rightarrow> string" where
  "incremental_query env t = subject_query @ '' after:'' @ toISOString env t"

text \<open>The patterns of a status group, whether one of them matches a text, and the
  pattern that the groups \<^verbatim>\<open>Rejected\<close> and \<^verbatim>\<open>Application Received\<close> share.\<close>

definition patterns_for :: "string \<Rightarrow> regex list" where
  "patterns_for st = (case map_of statusPatterns st of None \<Rightarrow> [] | Some ps \<Rightarrow> ps)"

definition hits :: "string \<Rightarrow> string \<Rightarrow> bool" where
  "hits st text = list_ex (\<lambda>p. test p text) (patterns_for st)"

definition thankYouForYourInterest :: regex where
  "thankYouForYourInterest =
     \<lparr>pattern = phrase [''thank'', ''you'', ''for'', ''your'', ''interest''], ignoreCase = True\<rparr>"

section \<open>Sample inputs\<close>

text \<open>
  Base64 decoding of a payload whose bytes are ASCII, in either alphabet, up to the
  padding; it stands for the buffer conversion in the examples.
\<close>

definition base64_alphabet :: string where
  "base64_alphabet = ''ABCDEFGHIJKLMNOPQRSTUVWXYZabcdefghijklmnopqrstuvwxyz0123456789''"

fun index_of :: "char \<Rightarrow> string \<Rightarrow> nat \<Rightarrow> nat option" where
  "index_of c [] n = None"
| "index_of c (x # xs) n = (if c = x then Some n else index_of c xs (Suc n))"

definition base64_value :: "char \<Rightarrow> nat option" where
  "base64_value c =
     (if c = CHR ''+'' \<or> c = CHR ''-'' then Some 62
      else if c = CHR ''/'' \<or> c = CHR ''_'' then Some 63
      else index_of c base64_alphabet 0)"

fun base64_bytes :: "nat list \<Rightarrow> nat list" where
  "base64_bytes (a # b # c # d # rest) =
     (a * 4 + b div 16) # ((b mod 16) * 16 + c div 4) # ((c mod 4) * 64 + d) # base64_bytes rest"
| "base64_bytes [a, b, c] = [a * 4 + b div 16, (b mod 16) * 16 + c div 4]"
| "base64_bytes [a, b] = [a * 4 + b div 16]"
| "base64_bytes _ = []"

definition base64_decode :: "string \<Rightarrow> string" where
  "base64_decode d =
     map char_of (base64_bytes (List.map_filter base64_value (takeWhile (\<lambda>c. c \<noteq> CHR ''='') d)))"

text \<open>
  An environment built from the answer of the list call and the message the get call
  returns; the text-generation service is down, and dates are known at the two
  texts the examples use.
\<close>

definition sample_env :: "(js_error + string list option) \<Rightarrow> message \<Rightarrow> env" where
  "sample_env found details =
     \<lparr>messages_list = (\<lambda>q n. found),
      messages_get = (\<lambda>mid. Inr details),
      generateContent = (\<lambda>p. Inl (ProviderError ''service unavailable'')),
      JSON_parse = (\<lambda>s. None),
      base64_toString = base64_decode,
      Date_parse = (\<lambda>s. if s = ''Thu, 01 Jan 1970 00:00:00 +0000'' then Some 0 else None),
      toISOString = (\<lambda>t. if t = 0 then ''1970-01-01T00:00:00.000Z'' else ''1970-01-01T00:00:01.000Z'')\<rparr>"

definition text_part :: "string \<Rightarrow> string \<Rightarrow> part" where
  "text_part mime d = Part (Some mime) None (Some d) None"

definition sample_message :: "string \<Rightarrow> string \<Rightarrow> string \<Rightarrow> part list \<Rightarrow> message" where
  "sample_message subject from d ps =
     \<lparr>msg_id = Some ''m1'',
      msg_payload = Some (Part (Some ''multipart/alternative'')
        (Some [\<lparr>hname = Some ''Subject'', hvalue = Some subject\<rparr>,
               \<lparr>hname = Some ''From'', hvalue = Some from\<rparr>,
               \<lparr>hname = Some ''Date'', hvalue = Some d\<rparr>])
        None (Some ps))\<rparr>"

definition mkEmail :: "string \<Rightarrow> string \<Rightarrow> EmailInfo" where
  "mkEmail i st =
     \<lparr>id' = i, companyName = ''Acme'', jobProfile = ''Engineer'', applicationStatus = st,
      date = None, originalSubject = ''Your application'', from' = ''Acme''\<rparr>"

definition sample_state :: "EmailInfo list \<Rightarrow> int \<Rightarrow> page_state" where
  "sample_state rs t = \<lparr>jobEmails = rs, loading = False, lastFetchTime = t, error = None\<rparr>"

section \<open>Evaluating the character tests\<close>

text \<open>
  The tests on codes, read off the bits of a character; these equations are the ones
  evaluation uses.
\<close>

lemma of_char_bits:
  "(of_char (Char b0 b1 b2 b3 b4 b5 b6 b7) :: nat) =
     of_bool b0 + 2 * of_bool b1 + 4 * of_bool b2 + 8 * of_bool b3 + 16 * of_bool b4
     + 32 * of_bool b5 + 64 * of_bool b6 + 128 * of_bool b7"
  by (simp add: of_char_Char)

lemma isUpper_bits [code]:
  "isUpper (Char b0 b1 b2 b3 b4 b5 b6 b7) =
     (\<not> b7 \<and> b6 \<and> \<not> b5 \<and> (b0 \<or> b1 \<or> b2 \<or> b3 \<or> b4) \<and> \<not> (b4 \<and> b3 \<and> (b2 \<or> (b1 \<and> b0))))"
  unfolding isUpper_def of_char_bits
  by (cases b0; cases b1; cases b2; cases b3; cases b4; cases b5; cases b6; cases b7) simp_all

lemma isLower_bits [code]:
  "isLower (Char b0 b1 b2 b3 b4 b5 b6 b7) =
     (\<not> b7 \<and> b6 \<and> b5 \<and> (b0 \<or> b1 \<or> b2 \<or> b3 \<or> b4) \<and> \<not> (b4 \<and> b3 \<and> (b2 \<or> (b1 \<and> b0))))"
  unfolding isLower_def of_char_bits
  by (cases b0; cases b1; cases b2; cases b3; cases b4; cases b5; cases b6; cases b7) simp_all

lemma isDigit_bits [code]:
  "isDigit (Char b0 b1 b2 b3 b4 b5 b6 b7) =
     (\<not> b7 \<and> \<not> b6 \<and> b5 \<and> b4 \<and> \<not> (b3 \<and> (b2 \<or> b1)))"
  unfolding isDigit_def of_char_bits
  by (cases b0; cases b1; cases b2; cases b3; cases b4; cases b5; cases b6; cases b7) simp_all

lemma toLowerCase_char_bits [code]:
  "toLowerCase_char (Char b0 b1 b2 b3 b4 b5 b6 b7) =
     (if isUpper (Char b0 b1 b2 b3 b4 b5 b6 b7) then Char b0 b1 b2 b3 b4 True b6 b7
      else Char b0 b1 b2 b3 b4 b5 b6 b7)"
  unfolding toLowerCase_char_def isUpper_bits of_char_bits
  by (cases b0; cases b1; cases b2; cases b3; cases b4; cases b5; cases b6; cases b7)
     (simp_all add: char_of_def bit_Suc_0_iff)

lemma toUpperCase_char_bits [code]:
  "toUpperCase_char (Char b0 b1 b2 b3 b4 b5 b6 b7) =
     (if isLower (Char b0 b1 b2 b3 b4 b5 b6 b7) then Char b0 b1 b2 b3 b4 False b6 b7
      else Char b0 b1 b2 b3 b4 b5 b6 b7)"
  unfolding toUpperCase_char_def isLower_bits of_char_bits
  by (cases b0; cases b1; cases b2; cases b3; cases b4; cases b5; cases b6; cases b7)
     (simp_all add: char_of_def bit_Suc_0_iff)

section \<open>Properties of the merge\<close>

lemma foldl_update_keys:
  "fst ` set (foldl (\<lambda>m (k, v). AList.update k v m) acc es) = fst ` set acc \<union> fst ` set es"
proof (induction es arbitrary: acc)
  case Nil
  show ?case by simp
next
  case (Cons e es)
  obtain k v where e: "e = (k, v)" by (cases e)
  show ?case
    unfolding e by (simp add: Cons.IH dom_update Un_assoc)
qed

lemma foldl_update_distinct:
  "distinct (map fst acc) \<Longrightarrow>
   distinct (map fst (foldl (\<lambda>m (k, v). AList.update k v m) acc es))"
proof (induction es arbitrary: acc)
  case Nil
  then show ?case by simp
next
  case (Cons e es)
  obtain k v where e: "e = (k, v)" by (cases e)
  from Cons.prems have "distinct (map fst (AList.update k v acc))"
    by (rule distinct_update)
  then show ?case
    unfolding e by (simp add: Cons.IH)
qed

lemma foldl_update_map_of:
  "map_of (foldl (\<lambda>m (k, v). AList.update k v m) acc es) = map_of acc ++ map_of (rev es)"
proof (induction es arbitrary: acc)
  case Nil
  show ?case by simp
next
  case (Cons e es)
  obtain k v where e: "e = (k, v)" by (cases e)
  have "map_of (AList.update k v acc) ++ map_of (rev es)
      = map_of acc ++ ([k \<mapsto> v] ++ map_of (rev es))"
    by (rule ext) (simp add: update_conv' map_add_def split: option.splits)
  then show ?case
    unfolding e by (simp add: Cons.IH)
qed

lemma new_Map_keys: "fst ` set (new_Map es) = fst ` set es"
  by (simp add: new_Map_def foldl_update_keys)

lemma new_Map_distinct: "distinct (map fst (new_Map es))"
  by (simp add: new_Map_def foldl_update_distinct)

lemma new_Map_map_of: "map_of (new_Map es) = map_of (rev es)"
  by (simp add: new_Map_def foldl_update_map_of)

lemma map_of_rev_tagged:
  "map_of (rev (map (\<lambda>item. (id' item, item)) rs)) x = lastWithId x rs"
  unfolding lastWithId_def rev_map [symmetric]
  by (induction rs rule: rev_induct) simp_all

lemma new_Map_tagged_snd:
  assumes "(k, r) \<in> set (new_Map (map (\<lambda>item. (id' item, item)) rs))"
  shows "id' r = k \<and> lastWithId k rs = Some r"
proof -
  from assms have "map_of (new_Map (map (\<lambda>item. (id' item, item)) rs)) k = Some r"
    by (simp add: new_Map_distinct)
  then have l: "lastWithId k rs = Some r"
    by (simp add: new_Map_map_of map_of_rev_tagged)
  then have "id' r = k"
    unfolding lastWithId_def by (auto dest: find_Some_iff [THEN iffD1])
  with l show ?thesis by simp
qed

lemma mergeEmails_ids:
  "map id' (mergeEmails n p) = map fst (new_Map (map (\<lambda>item. (id' item, item)) (n @ p)))"
proof -
  let ?m = "new_Map (map (\<lambda>item. (id' item, item)) (n @ p))"
  have "id' (snd e) = fst e" if "e \<in> set ?m" for e
  proof -
    from that have "(fst e, snd e) \<in> set ?m" by simp
    then show ?thesis by (rule new_Map_tagged_snd [THEN conjunct1])
  qed
  then have "map (\<lambda>e. id' (snd e)) ?m = map fst ?m"
    by (simp only: map_eq_conv) blast
  then show ?thesis
    by (simp add: mergeEmails_def Map_values_def comp_def)
qed

lemma mergeEmails_distinct: "distinct (map id' (mergeEmails n p))"
  by (simp add: mergeEmails_ids new_Map_distinct)

lemma mergeEmails_id_set: "id' ` set (mergeEmails n p) = id' ` (set n \<union> set p)"
proof -
  have "set (map id' (mergeEmails n p)) = fst ` set (map (\<lambda>item. (id' item, item)) (n @ p))"
    by (simp only: mergeEmails_ids set_map new_Map_keys)
  then show ?thesis by (simp add: image_image image_Un)
qed

lemma mergeEmails_length: "length (mergeEmails n p) = card (id' ` (set n \<union> set p))"
proof -
  have "length (mergeEmails n p) = length (map id' (mergeEmails n p))" by simp
  also have "\<dots> = card (set (map id' (mergeEmails n p)))"
    using mergeEmails_distinct [of n p] by (simp only: distinct_card)
  finally show ?thesis by (simp add: mergeEmails_id_set)
qed

lemma mergeEmails_last:
  assumes "r \<in> set (mergeEmails n p)"
  shows "lastWithId (id' r) (n @ p) = Some r"
proof -
  from assms obtain k where "(k, r) \<in> set (new_Map (map (\<lambda>item. (id' item, item)) (n @ p)))"
    by (auto simp: mergeEmails_def Map_values_def)
  then show ?thesis using new_Map_tagged_snd by fastforce
qed

lemma lastWithId_append:
  "lastWithId x (n @ p) = (case lastWithId x p of Some r \<Rightarrow> Some r | None \<Rightarrow> lastWithId x n)"
  unfolding lastWithId_def
  by (induction p rule: rev_induct) simp_all

lemma lastWithId_None: "lastWithId x p = None \<longleftrightarrow> x \<notin> id' ` set p"
  by (auto simp: lastWithId_def find_None_iff)

lemma mergeEmails_prev_wins:
  assumes "lastWithId x prev = Some old" and "r \<in> set (mergeEmails newEmails prev)" and "id' r = x"
  shows "r = old"
  using assms mergeEmails_last [of r newEmails prev] by (simp add: lastWithId_append)

lemma sample_merge:
  "mergeEmails [mkEmail ''a'' ''Applied'', mkEmail ''b'' ''Offer'', mkEmail ''a'' ''Interview'']
       [mkEmail ''c'' ''Rejected'']
   = [mkEmail ''a'' ''Interview'', mkEmail ''b'' ''Offer'', mkEmail ''c'' ''Rejected'']"
  by (simp add: mergeEmails_def new_Map_def Map_values_def mkEmail_def)

text \<open>
  Claim C1 (merge override law). The claim asks that a newly classified record replace
  the stored record of the same id. The merge lists the new records before the
  stored ones and the map keeps the value set last, so the stored record survives
  (\<open>mergeEmails_prev_wins\<close>). At the input of the specification's example, a stored
  record of id X with status Applied and a new record of id X with status Interview,
  the result is the stored record.
\<close>

theorem merge_keeps_old_record:
  "mergeEmails [mkEmail ''X'' ''Interview''] [mkEmail ''X'' ''Applied''] = [mkEmail ''X'' ''Applied'']"
  by (simp add: mergeEmails_def new_Map_def Map_values_def mkEmail_def)

text \<open>
  What the merge does keep: every id occurs once, the ids are those of the stored set
  and the batch together, the size is the number of distinct ids, and each id maps
  to the last record of that id in the order the entries are set in the map (the
  batch, then the stored set), which for an id outside the stored set is the last of
  its records in the batch.
\<close>

lemma merge_dedup:
  "distinct (map id' (mergeEmails newEmails prev))
   \<and> id' ` set (mergeEmails newEmails prev) = id' ` (set newEmails \<union> set prev)
   \<and> length (mergeEmails newEmails prev) = card (id' ` (set newEmails \<union> set prev))
   \<and> (\<forall>r \<in> set (mergeEmails newEmails prev). lastWithId (id' r) (newEmails @ prev) = Some r)
   \<and> (\<forall>r \<in> set (mergeEmails newEmails prev).
         id' r \<notin> id' ` set prev \<longrightarrow> lastWithId (id' r) newEmails = Some r)"
proof -
  have "lastWithId (id' r) newEmails = Some r"
    if "r \<in> set (mergeEmails newEmails prev)" and "id' r \<notin> id' ` set prev" for r
  proof -
    from that(2) have "lastWithId (id' r) prev = None" by (simp add: lastWithId_None)
    with mergeEmails_last [OF that(1)] show ?thesis by (simp add: lastWithId_append)
  qed
  then show ?thesis
    by (simp add: mergeEmails_distinct mergeEmails_id_set mergeEmails_length mergeEmails_last)
qed

lemma merge_dedup_example:
  "mkEmail ''a'' ''Interview''
     \<in> set (mergeEmails [mkEmail ''a'' ''Applied'', mkEmail ''b'' ''Offer'', mkEmail ''a'' ''Interview'']
              [mkEmail ''c'' ''Rejected''])
   \<and> id' (mkEmail ''a'' ''Interview'') \<notin> id' ` set [mkEmail ''c'' ''Rejected'']
   \<and> lastWithId ''a'' [mkEmail ''a'' ''Applied'', mkEmail ''b'' ''Offer'', mkEmail ''a'' ''Interview'']
       = Some (mkEmail ''a'' ''Interview'')
   \<and> length (mergeEmails [mkEmail ''a'' ''Applied'', mkEmail ''b'' ''Offer'', mkEmail ''a'' ''Interview'']
              [mkEmail ''c'' ''Rejected'']) = 3"
proof -
  let ?n = "[mkEmail ''a'' ''Applied'', mkEmail ''b'' ''Offer'', mkEmail ''a'' ''Interview'']"
  let ?p = "[mkEmail ''c'' ''Rejected'']"
  have m: "mkEmail ''a'' ''Interview'' \<in> set (mergeEmails ?n ?p)"
    by (simp add: sample_merge)
  have i: "id' (mkEmail ''a'' ''Interview'') \<notin> id' ` set ?p"
    by (simp add: mkEmail_def)
  have a: "id' (mkEmail ''a'' ''Interview'') = ''a''"
    by (simp add: mkEmail_def)
  from merge_dedup [of ?n ?p] m i
  have "lastWithId (id' (mkEmail ''a'' ''Interview'')) ?n = Some (mkEmail ''a'' ''Interview'')"
    by blast
  then have l: "lastWithId ''a'' ?n = Some (mkEmail ''a'' ''Interview'')"
    by (simp only: a)
  have "length (mergeEmails ?n ?p) = 3"
    by (simp add: sample_merge)
  with m i l show ?thesis by blast
qed

text \<open>
  Claim C9 (dedup closure). The claim asks that, for every batch merged into a record
  set, each id map to one record, the last one of the batch when the batch holds
  several records of that id, and that the size be the number of distinct ids. One
  record per id and the size hold (\<open>merge_dedup\<close>). The record kept is the last one
  set in the map, and the stored records are set after the batch: for a batch with
  the records Applied and Interview of id a, in that order, merged into a stored set
  with the record Rejected of id a, the result is the stored record, not the last
  record of the batch. This is the defect of claim C1.
\<close>

theorem batch_duplicate_loses_to_stored:
  "mergeEmails [mkEmail ''a'' ''Applied'', mkEmail ''a'' ''Interview''] [mkEmail ''a'' ''Rejected'']
     = [mkEmail ''a'' ''Rejected'']
   \<and> lastWithId ''a'' [mkEmail ''a'' ''Applied'', mkEmail ''a'' ''Interview'']
       = Some (mkEmail ''a'' ''Interview'')"
  by (simp add: mergeEmails_def new_Map_def Map_values_def lastWithId_def mkEmail_def)

section \<open>The watermark\<close>

text \<open>
  Claim C7, as stated, fails on an incremental pass whose batch is empty:
  \<^verbatim>\<open>checkNewEmails\<close> calls \<^verbatim>\<open>updateEmailsWithNewData\<close>, the only place where it sets the
  watermark, under the guard \<^verbatim>\<open>newEmails.length > 0\<close>. With the watermark at 1000, an
  empty batch and the clock at 5000, the pass writes the watermark zero times and
  leaves it at 1000.
\<close>


theorem watermark_empty_batch_counterexample:
  "lastFetchTime (run_actions (sample_state [] 1000)
      (checkNewEmails True (sample_state [] 1000) (Fetched \<lparr>status = 200, json = Records []\<rparr>)
         (Some ''granted'') 5000)) = 1000
   \<and> watermark_writes
      (checkNewEmails True (sample_state [] 1000) (Fetched \<lparr>status = 200, json = Records []\<rparr>)
         (Some ''granted'') 5000) = 0"
  by (simp add: checkNewEmails_def sample_state_def response_ok_def run_actions_def
      watermark_writes_def)

text \<open>
  Claim C7, amended. A successful full sync sets the watermark once, to the clock
  reading taken at the end of the pass, whatever the records are; so does a
  successful incremental pass whose batch is not empty; a successful incremental
  pass whose batch is empty does not set the watermark and leaves it as it was.
\<close>

theorem watermark_advance:
  "(response_ok r \<and> json r = Records data \<longrightarrow>
      watermark_writes (fetchEmails True (Fetched r) now) = 1
      \<and> lastFetchTime (run_actions st (fetchEmails True (Fetched r) now)) = now
      \<and> jobEmails (run_actions st (fetchEmails True (Fetched r) now)) = data)
   \<and> (\<not> loading st \<and> response_ok r \<and> json r = Records newEmails \<and> newEmails \<noteq> [] \<longrightarrow>
      watermark_writes (checkNewEmails True st (Fetched r) permission now) = 1
      \<and> lastFetchTime (run_actions st (checkNewEmails True st (Fetched r) permission now)) = now)
   \<and> (\<not> loading st \<and> response_ok r \<and> json r = Records [] \<longrightarrow>
      watermark_writes (checkNewEmails True st (Fetched r) permission now) = 0
      \<and> lastFetchTime (run_actions st (checkNewEmails True st (Fetched r) permission now))
          = lastFetchTime st)"
  by (auto simp: fetchEmails_def checkNewEmails_def updateEmailsWithNewData_def
      showNotification_def run_actions_def watermark_writes_def
      split: option.splits)

theorem watermark_advance_witness:
  "response_ok \<lparr>status = 200, json = Records [mkEmail ''a'' ''Applied'']\<rparr>
   \<and> \<not> loading (sample_state [] 1000)
   \<and> [mkEmail ''a'' ''Applied''] \<noteq> []
   \<and> lastFetchTime (run_actions (sample_state [] 1000)
        (fetchEmails True (Fetched \<lparr>status = 200, json = Records [mkEmail ''a'' ''Applied'']\<rparr>) 5000))
       = 5000
   \<and> lastFetchTime (run_actions (sample_state [] 1000)
        (checkNewEmails True (sample_state [] 1000)
           (Fetched \<lparr>status = 200, json = Records [mkEmail ''a'' ''Applied'']\<rparr>) (Some ''granted'') 5000))
       = 5000
   \<and> response_ok \<lparr>status = 200, json = Records []\<rparr>
   \<and> lastFetchTime (run_actions (sample_state [] 1000)
        (checkNewEmails True (sample_state [] 1000)
           (Fetched \<lparr>status = 200, json = Records []\<rparr>) (Some ''granted'') 5000))
       = 1000"
proof -
  let ?r = "\<lparr>status = 200, json = Records [mkEmail ''a'' ''Applied'']\<rparr>"
  let ?e = "\<lparr>status = 200, json = Records []\<rparr>"
  let ?st = "sample_state [] 1000"
  have ok: "response_ok ?r" "response_ok ?e" by (simp_all add: response_ok_def)
  have nl: "\<not> loading ?st" by (simp add: sample_state_def)
  have ne: "[mkEmail ''a'' ''Applied''] \<noteq> []" by simp
  have j: "json ?r = Records [mkEmail ''a'' ''Applied'']" "json ?e = Records []" by simp_all
  have a: "lastFetchTime (run_actions ?st (fetchEmails True (Fetched ?r) 5000)) = 5000"
    using watermark_advance [where r = ?r and data = "[mkEmail ''a'' ''Applied'']" and now = 5000
        and st = ?st] ok j by blast
  have b: "lastFetchTime (run_actions ?st
             (checkNewEmails True ?st (Fetched ?r) (Some ''granted'') 5000)) = 5000"
    using watermark_advance [where r = ?r and st = ?st and newEmails = "[mkEmail ''a'' ''Applied'']"
        and permission = "Some ''granted''" and now = 5000] ok nl ne j by blast
  have c: "lastFetchTime (run_actions ?st
             (checkNewEmails True ?st (Fetched ?e) (Some ''granted'') 5000)) = 1000"
    using watermark_advance [where r = ?e and st = ?st and permission = "Some ''granted''"
        and now = 5000] ok nl j
    by (simp add: sample_state_def)
  from ok nl ne a b c show ?thesis by blast
qed



lemma Promise_all_rejects:
  "\<exists>t \<in> set ts. isl t \<Longrightarrow> isl (Promise_all ts)"
proof (induction ts)
  case Nil
  then show ?case by simp
next
  case (Cons t ts)
  show ?case
  proof (cases t)
    case (Inl e)
    then show ?thesis by simp
  next
    case (Inr x)
    with Cons.prems have "\<exists>t \<in> set ts. isl t" by auto
    then have "isl (Promise_all ts)" by (rule Cons.IH)
    with Inr show ?thesis by (cases "Promise_all ts") simp_all
  qed
qed

lemma incremental_task_rejects: "isl (incremental_task env mid)"
  by (simp add: incremental_task_def extractEmailInfo_new_def split: sum.splits)

lemma POST_rejected:
  assumes "truthy accessToken" "valid_time t"
    and "messages_list env (incremental_query env t) 1000 = Inl e
         \<or> (\<exists>ms. messages_list env (incremental_query env t) 1000 = Inr (Some ms)
                \<and> (\<exists>mid \<in> set ms. isl (incremental_task env mid)))"
  shows "POST env accessToken t
           = Inr \<lparr>status = 500, json = Error_body ''Failed to fetch new emails'' None\<rparr>"
  using assms(3)
proof
  assume "messages_list env (incremental_query env t) 1000 = Inl e"
  with assms(1,2) show ?thesis by (simp add: POST_def incremental_query_def)
next
  assume "\<exists>ms. messages_list env (incremental_query env t) 1000 = Inr (Some ms)
                \<and> (\<exists>mid \<in> set ms. isl (incremental_task env mid))"
  then obtain ms mid where ms: "messages_list env (incremental_query env t) 1000 = Inr (Some ms)"
    and mid: "mid \<in> set ms" "isl (incremental_task env mid)" by blast
  from mid have ne: "ms \<noteq> []" by auto
  from mid have "\<exists>t \<in> set (map (incremental_task env) ms). isl t" by auto
  then have "isl (Promise_all (map (incremental_task env) ms))" by (rule Promise_all_rejects)
  then obtain e' where "Promise_all (map (incremental_task env) ms) = Inl e'"
    by (cases "Promise_all (map (incremental_task env) ms)") simp_all
  with assms(1,2) ms ne show ?thesis by (simp add: POST_def incremental_query_def)
qed

lemma POST_not_ok:
  assumes "messages_list env (incremental_query env t) 1000 = Inl e
         \<or> (\<exists>ms. messages_list env (incremental_query env t) 1000 = Inr (Some ms)
                \<and> (\<exists>mid \<in> set ms. isl (incremental_task env mid)))"
  shows "\<exists>r. fetch_new env accessToken t = Fetched r \<and> \<not> response_ok r"
proof (cases "truthy accessToken \<and> valid_time t")
  case False
  then show ?thesis
    by (auto simp: fetch_new_def POST_def response_ok_def)
next
  case True
  then have "POST env accessToken t
           = Inr \<lparr>status = 500, json = Error_body ''Failed to fetch new emails'' None\<rparr>"
    using assms by (simp add: POST_rejected)
  then show ?thesis
    by (simp add: fetch_new_def response_ok_def)
qed

lemma checkNewEmails_failure:
  assumes "res = Fetch_failed m \<or> (\<exists>r. res = Fetched r \<and> \<not> response_ok r)"
  shows "lastFetchTime (run_actions st (checkNewEmails session st res permission now)) = lastFetchTime st
       \<and> jobEmails (run_actions st (checkNewEmails session st res permission now)) = jobEmails st
       \<and> watermark_writes (checkNewEmails session st res permission now) = 0"
  using assms by (auto simp: checkNewEmails_def run_actions_def watermark_writes_def)

text \<open>
  Claim C8 (watermark atomicity on failure). In an incremental pass in which the
  provider's list call throws, or the list call succeeds and, for one of the listed
  messages, the get call or the classification call throws, the route answers with
  a status outside 200 to 299 and the page leaves both the watermark and the stored
  records as they were.
\<close>

theorem watermark_atomicity:
  assumes "messages_list env (incremental_query env (lastFetchTime st)) 1000 = Inl e
           \<or> (\<exists>ms. messages_list env (incremental_query env (lastFetchTime st)) 1000 = Inr (Some ms)
                  \<and> (\<exists>mid \<in> set ms. messages_get env mid = Inl e))
           \<or> (\<exists>ms. messages_list env (incremental_query env (lastFetchTime st)) 1000 = Inr (Some ms)
                  \<and> (\<exists>mid \<in> set ms. \<exists>details. messages_get env mid = Inr details
                         \<and> extractEmailInfo_new env details = Inl e))"
  shows "lastFetchTime (incremental_pass env accessToken permission now st) = lastFetchTime st
       \<and> jobEmails (incremental_pass env accessToken permission now st) = jobEmails st"
proof -
  have "isl (incremental_task env mid)" if "messages_get env mid = Inl e" for mid
    using that by (simp add: incremental_task_def)
  moreover have "isl (incremental_task env mid)"
    if "messages_get env mid = Inr details" "extractEmailInfo_new env details = Inl e" for mid details
    using that by (simp add: incremental_task_def)
  ultimately have "messages_list env (incremental_query env (lastFetchTime st)) 1000 = Inl e
         \<or> (\<exists>ms. messages_list env (incremental_query env (lastFetchTime st)) 1000 = Inr (Some ms)
                \<and> (\<exists>mid \<in> set ms. isl (incremental_task env mid)))"
    using assms by blast
  from POST_not_ok [OF this] obtain r where
    "fetch_new env accessToken (lastFetchTime st) = Fetched r" and "\<not> response_ok r" by blast
  then show ?thesis
    unfolding incremental_pass_def
    using checkNewEmails_failure [of "fetch_new env accessToken (lastFetchTime st)" _ st True permission now]
    by simp
qed

theorem watermark_atomicity_witness:
  "messages_list (sample_env (Inl (ProviderError ''quota exceeded'')) (sample_message [] [] [] []))
      (incremental_query (sample_env (Inl (ProviderError ''quota exceeded'')) (sample_message [] [] [] []))
         (lastFetchTime (sample_state [mkEmail ''a'' ''Applied''] 1000))) 1000
     = Inl (ProviderError ''quota exceeded'')
   \<and> lastFetchTime (incremental_pass
        (sample_env (Inl (ProviderError ''quota exceeded'')) (sample_message [] [] [] []))
        (Some ''token'') (Some ''granted'') 5000 (sample_state [mkEmail ''a'' ''Applied''] 1000)) = 1000
   \<and> jobEmails (incremental_pass
        (sample_env (Inl (ProviderError ''quota exceeded'')) (sample_message [] [] [] []))
        (Some ''token'') (Some ''granted'') 5000 (sample_state [mkEmail ''a'' ''Applied''] 1000))
       = [mkEmail ''a'' ''Applied'']
   \<and> lastFetchTime (incremental_pass
        (sample_env (Inr (Some [''m1''])) (sample_message [] [] [] []))
        (Some ''token'') (Some ''granted'') 5000 (sample_state [mkEmail ''a'' ''Applied''] 1000)) = 1000
   \<and> jobEmails (incremental_pass
        (sample_env (Inr (Some [''m1''])) (sample_message [] [] [] []))
        (Some ''token'') (Some ''granted'') 5000 (sample_state [mkEmail ''a'' ''Applied''] 1000))
       = [mkEmail ''a'' ''Applied'']"
proof -
  let ?down = "sample_env (Inl (ProviderError ''quota exceeded'')) (sample_message [] [] [] [])"
  let ?up = "sample_env (Inr (Some [''m1''])) (sample_message [] [] [] [])"
  let ?st = "sample_state [mkEmail ''a'' ''Applied''] 1000"
  let ?e = "ReferenceError ''extractEmailInfo is not defined''"
  have h: "messages_list ?down (incremental_query ?down (lastFetchTime ?st)) 1000
             = Inl (ProviderError ''quota exceeded'')"
    by (simp add: sample_env_def)
  have "messages_list ?up (incremental_query ?up (lastFetchTime ?st)) 1000 = Inr (Some [''m1''])"
    and "''m1'' \<in> set [''m1'']"
    and "messages_get ?up ''m1'' = Inr (sample_message [] [] [] [])"
    and "extractEmailInfo_new ?up (sample_message [] [] [] []) = Inl ?e"
    by (simp_all add: sample_env_def extractEmailInfo_new_def)
  then have c: "\<exists>ms. messages_list ?up (incremental_query ?up (lastFetchTime ?st)) 1000 = Inr (Some ms)
        \<and> (\<exists>mid \<in> set ms. \<exists>details. messages_get ?up mid = Inr details
               \<and> extractEmailInfo_new ?up details = Inl ?e)"
    by blast
  have s: "lastFetchTime ?st = 1000" "jobEmails ?st = [mkEmail ''a'' ''Applied'']"
    by (simp_all add: sample_state_def)
  from watermark_atomicity [where env = ?down and st = ?st and e = "ProviderError ''quota exceeded''"
      and accessToken = "Some ''token''" and permission = "Some ''granted''" and now = 5000] h
  have a: "lastFetchTime (incremental_pass ?down (Some ''token'') (Some ''granted'') 5000 ?st) = 1000
      \<and> jobEmails (incremental_pass ?down (Some ''token'') (Some ''granted'') 5000 ?st)
          = [mkEmail ''a'' ''Applied'']"
    by (simp add: s)
  from watermark_atomicity [where env = ?up and st = ?st and e = ?e
      and accessToken = "Some ''token''" and permission = "Some ''granted''" and now = 5000] c
  have b: "lastFetchTime (incremental_pass ?up (Some ''token'') (Some ''granted'') 5000 ?st) = 1000
      \<and> jobEmails (incremental_pass ?up (Some ''token'') (Some ''granted'') 5000 ?st)
          = [mkEmail ''a'' ''Applied'']"
    by (simp add: s)
  from h a b show ?thesis by blast
qed

section \<open>The incremental route\<close>

lemma POST_nonempty:
  assumes "truthy accessToken" "valid_time t"
    and "messages_list env (incremental_query env t) 1000 = Inr (Some ms)" "ms \<noteq> []"
  shows "POST env accessToken t
           = Inr \<lparr>status = 500, json = Error_body ''Failed to fetch new emails'' None\<rparr>"
proof -
  from assms(4) obtain mid where "mid \<in> set ms" by (cases ms) auto
  with assms(3) incremental_task_rejects [of env mid]
  have "\<exists>ms. messages_list env (incremental_query env t) 1000 = Inr (Some ms)
                \<and> (\<exists>mid \<in> set ms. isl (incremental_task env mid))" by blast
  with assms(1,2) show ?thesis by (simp add: POST_rejected)
qed

text \<open>
  Claim C3, as stated, fails on the shape of the failure response: when the
  provider's list call is rejected, the incremental route answers 500 with the
  \<^verbatim>\<open>error\<close> field alone, where the full-sync route answers 500 with \<^verbatim>\<open>error\<close> and
  \<^verbatim>\<open>details\<close>.
\<close>


theorem incremental_error_shape_counterexample:
  "POST (sample_env (Inl (ProviderError ''quota exceeded'')) (sample_message [] [] [] [])) (Some ''token'') 0
     = Inr \<lparr>status = 500, json = Error_body ''Failed to fetch new emails'' None\<rparr>
   \<and> GET (sample_env (Inl (ProviderError ''quota exceeded'')) (sample_message [] [] [] [])) (Some ''token'')
     = \<lparr>status = 500, json = Error_body ''Failed to fetch emails'' (Some ''Error: quota exceeded'')\<rparr>
   \<and> \<not> has_details (Error_body ''Failed to fetch new emails'' None)
   \<and> has_details (Error_body ''Failed to fetch emails'' (Some ''Error: quota exceeded''))"
  by (simp add: POST_def GET_def sample_env_def truthy_def valid_time_def)

text \<open>
  Claim C3, amended. Without a credential the incremental route answers 401 with
  the same body as the full-sync route. With a credential and a watermark that is a
  valid time value: when the provider's list call succeeds with no message the
  route returns the empty array; when the list call, or the get call of a listed
  message, is rejected, it answers 500 with the body
  \<^verbatim>\<open>{error: 'Failed to fetch new emails'}\<close>, which has no \<^verbatim>\<open>details\<close> field.
\<close>

theorem incremental_endpoint:
  "(\<not> truthy accessToken \<longrightarrow>
      POST env accessToken t = Inr \<lparr>status = 401, json = Error_body ''Not authenticated'' None\<rparr>
      \<and> GET env accessToken = \<lparr>status = 401, json = Error_body ''Not authenticated'' None\<rparr>)
   \<and> (truthy accessToken \<and> valid_time t
        \<and> (messages_list env (incremental_query env t) 1000 = Inr None
           \<or> messages_list env (incremental_query env t) 1000 = Inr (Some [])) \<longrightarrow>
      POST env accessToken t = Inr \<lparr>status = 200, json = Records []\<rparr>)
   \<and> (truthy accessToken \<and> valid_time t
        \<and> (messages_list env (incremental_query env t) 1000 = Inl e
           \<or> (\<exists>ms. messages_list env (incremental_query env t) 1000 = Inr (Some ms)
                  \<and> (\<exists>mid \<in> set ms. messages_get env mid = Inl e))) \<longrightarrow>
      POST env accessToken t
        = Inr \<lparr>status = 500, json = Error_body ''Failed to fetch new emails'' None\<rparr>)"
proof -
  have a: "POST env accessToken t = Inr \<lparr>status = 401, json = Error_body ''Not authenticated'' None\<rparr>
      \<and> GET env accessToken = \<lparr>status = 401, json = Error_body ''Not authenticated'' None\<rparr>"
    if "\<not> truthy accessToken"
    using that by (simp add: POST_def GET_def)
  have b: "POST env accessToken t = Inr \<lparr>status = 200, json = Records []\<rparr>"
    if "truthy accessToken" "valid_time t"
       "messages_list env (incremental_query env t) 1000 = Inr None
        \<or> messages_list env (incremental_query env t) 1000 = Inr (Some [])"
    using that by (auto simp: POST_def incremental_query_def)
  have c: "POST env accessToken t
        = Inr \<lparr>status = 500, json = Error_body ''Failed to fetch new emails'' None\<rparr>"
    if tok: "truthy accessToken" "valid_time t"
      and f: "messages_list env (incremental_query env t) 1000 = Inl e
           \<or> (\<exists>ms. messages_list env (incremental_query env t) 1000 = Inr (Some ms)
                  \<and> (\<exists>mid \<in> set ms. messages_get env mid = Inl e))"
  proof -
    have "isl (incremental_task env mid)" if "messages_get env mid = Inl e" for mid
      using that by (simp add: incremental_task_def)
    with f have "messages_list env (incremental_query env t) 1000 = Inl e
         \<or> (\<exists>ms. messages_list env (incremental_query env t) 1000 = Inr (Some ms)
                \<and> (\<exists>mid \<in> set ms. isl (incremental_task env mid)))"
      by blast
    with tok show ?thesis by (simp add: POST_rejected)
  qed
  from a b c show ?thesis by blast
qed

theorem incremental_endpoint_witness:
  "\<not> truthy None
   \<and> POST (sample_env (Inr None) (sample_message [] [] [] [])) None 0
       = Inr \<lparr>status = 401, json = Error_body ''Not authenticated'' None\<rparr>
   \<and> truthy (Some ''token'') \<and> valid_time 0
   \<and> POST (sample_env (Inr None) (sample_message [] [] [] [])) (Some ''token'') 0
       = Inr \<lparr>status = 200, json = Records []\<rparr>
   \<and> POST (sample_env (Inl (ProviderError ''quota exceeded'')) (sample_message [] [] [] []))
        (Some ''token'') 0
       = Inr \<lparr>status = 500, json = Error_body ''Failed to fetch new emails'' None\<rparr>"
proof -
  let ?ok = "sample_env (Inr None) (sample_message [] [] [] [])"
  let ?down = "sample_env (Inl (ProviderError ''quota exceeded'')) (sample_message [] [] [] [])"
  have n: "\<not> truthy None" and tk: "truthy (Some ''token'')" and v: "valid_time 0"
    by (simp_all add: truthy_def valid_time_def)
  have l1: "messages_list ?ok (incremental_query ?ok 0) 1000 = Inr None"
    by (simp add: sample_env_def)
  have l2: "messages_list ?down (incremental_query ?down 0) 1000 = Inl (ProviderError ''quota exceeded'')"
    by (simp add: sample_env_def)
  have a: "POST ?ok None 0 = Inr \<lparr>status = 401, json = Error_body ''Not authenticated'' None\<rparr>"
    using incremental_endpoint [where accessToken = None and env = ?ok and t = 0] n by blast
  have b: "POST ?ok (Some ''token'') 0 = Inr \<lparr>status = 200, json = Records []\<rparr>"
    using incremental_endpoint [where accessToken = "Some ''token''" and env = ?ok and t = 0] tk v l1
    by blast
  have c: "POST ?down (Some ''token'') 0
             = Inr \<lparr>status = 500, json = Error_body ''Failed to fetch new emails'' None\<rparr>"
    using incremental_endpoint [where accessToken = "Some ''token''" and env = ?down and t = 0
        and e = "ProviderError ''quota exceeded''"] tk v l2
    by blast
  from n tk v a b c show ?thesis by blast
qed

section \<open>The message classifier\<close>


lemma extractEmailInfo_fallback:
  "classifier_result env details = None \<Longrightarrow>
   extractEmailInfo env details =
     (case iso_date env (date_header details) of
        Inl e \<Rightarrow> Inl e
      | Inr d \<Rightarrow>
          Inr \<lparr>id' = or_empty (msg_id details),
               companyName = ''Unknown Company'',
               jobProfile = ''Unknown Position'',
               applicationStatus = ''Applied'',
               date = d,
               originalSubject = or_empty (header_value (message_headers details) ''Subject''),
               from' = trim (replace_first
                         (or_empty (header_value (message_headers details) ''From'')) angleAddress)\<rparr>)"
  by (simp add: extractEmailInfo_def classifier_result_def date_header_def Let_def)

lemma iso_date_cases:
  "iso_date env d =
     (if d = [] then Inr None
      else if Date_parse env d = None then Inl (RangeError ''Invalid time value'')
      else Inr (Some (toISOString env (the (Date_parse env d)))))"
  by (auto simp: iso_date_def split: option.splits)

text \<open>
  Claim C10. In the full-sync route, on a message for which the AI classifier yields
  no result, every record that is assembled has the company name
  \<^verbatim>\<open>Unknown Company\<close>, the job profile \<^verbatim>\<open>Unknown Position\<close> and the status \<^verbatim>\<open>Applied\<close>,
  whatever the subject, the body and the sender are; and a record is assembled
  whenever the \<^verbatim>\<open>Date\<close> header is absent, empty or parsable.
\<close>

theorem fallback_is_constant:
  assumes "classifier_result env details = None"
  shows "(\<forall>r. extractEmailInfo env details = Inr r \<longrightarrow>
            companyName r = ''Unknown Company'' \<and> jobProfile r = ''Unknown Position''
            \<and> applicationStatus r = ''Applied'')
       \<and> (date_header details = [] \<or> Date_parse env (date_header details) \<noteq> None \<longrightarrow>
            (\<exists>r. extractEmailInfo env details = Inr r))"
  using assms
  by (auto simp: extractEmailInfo_fallback iso_date_cases split: sum.splits if_splits)

lemma sample_classifier_down:
  "classifier_result (sample_env found m) details = None"
  by (simp add: classifier_result_def analyzeEmailWithAI_def sample_env_def)

theorem fallback_is_constant_witness:
  "classifier_result (sample_env (Inr None) (sample_message [] [] [] []))
      (sample_message ''Interview invitation'' ''Acme <jobs@acme.com>''
         ''Thu, 01 Jan 1970 00:00:00 +0000'' []) = None
   \<and> (\<exists>r. extractEmailInfo (sample_env (Inr None) (sample_message [] [] [] []))
           (sample_message ''Interview invitation'' ''Acme <jobs@acme.com>''
              ''Thu, 01 Jan 1970 00:00:00 +0000'' []) = Inr r
         \<and> companyName r = ''Unknown Company'' \<and> jobProfile r = ''Unknown Position''
         \<and> applicationStatus r = ''Applied'')"
proof -
  let ?env = "sample_env (Inr None) (sample_message [] [] [] [])"
  let ?m = "sample_message ''Interview invitation'' ''Acme <jobs@acme.com>''
              ''Thu, 01 Jan 1970 00:00:00 +0000'' []"
  have h: "classifier_result ?env ?m = None" by (rule sample_classifier_down)
  have d: "Date_parse ?env (date_header ?m) \<noteq> None"
    by (simp add: sample_env_def date_header_def sample_message_def message_headers_def
        header_value_def or_empty_def)
  from fallback_is_constant [OF h] d h show ?thesis by blast
qed

section \<open>Body extraction, properties\<close>

text \<open>
  Claim C4, as stated, fails on a text part below the first level: for a
  \<^verbatim>\<open>multipart/mixed\<close> message whose only child is a \<^verbatim>\<open>multipart/alternative\<close> part
  holding a \<^verbatim>\<open>text/plain\<close> part with the encoding of \<^verbatim>\<open>Hello\<close>, the extracted body is
  empty, although the text part on its own decodes to \<^verbatim>\<open>Hello\<close>.
\<close>


theorem nested_text_part_counterexample:
  "getEmailBody (sample_env (Inr None) (sample_message [] [] [] []))
     (Some (Part (Some ''multipart/mixed'') None None
        (Some [Part (Some ''multipart/alternative'') None None
                 (Some [text_part ''text/plain'' ''SGVsbG8'', text_part ''text/html'' ''PGI-SGk8L2I-''])])))
     = []
   \<and> getEmailBody (sample_env (Inr None) (sample_message [] [] [] []))
       (Some (text_part ''text/plain'' ''SGVsbG8'')) = ''Hello''"
  by (simp add: getEmailBody_def sample_env_def text_part_def truthy_def or_empty_def)
     code_simp

lemma is_text_plain_prune: "is_text_plain (prune p) = is_text_plain p"
  by (simp add: is_text_plain_def prune_def)

lemma child_text_prune: "child_text env (prune p) = child_text env p"
  by (simp add: child_text_def prune_def)

lemma children_prune:
  "map (child_text env) (filter is_text_plain (map prune ps))
   = map (child_text env) (filter is_text_plain ps)"
  by (induction ps) (simp_all add: is_text_plain_prune child_text_prune)

lemma getEmailBody_Some:
  "getEmailBody env (Some p) =
     (if is_text_plain p \<and> truthy (bodyData p) then base64_toString env (or_empty (bodyData p))
      else (case parts p of
              None \<Rightarrow> []
            | Some ps \<Rightarrow> join nl (map (child_text env) (filter is_text_plain ps))))"
proof -
  have "(\<lambda>part. if truthy (bodyData part) then base64_toString env (or_empty (bodyData part)) else [])
        = child_text env"
    by (rule ext) (simp add: child_text_def)
  moreover have "(\<lambda>part. mimeType part = Some ''text/plain'') = is_text_plain"
    by (rule ext) (simp add: is_text_plain_def)
  ultimately show ?thesis
    by (simp add: getEmailBody_def is_text_plain_def split: option.splits)
qed

text \<open>
  Claim C4, amended. An absent input yields the empty string. A part whose media
  type is exactly \<^verbatim>\<open>text/plain\<close> and whose inline content is not empty yields its
  decoded content. Any other part yields the contributions of its direct children of
  media type \<^verbatim>\<open>text/plain\<close>, in child order, joined with newlines, where a child
  contributes its decoded content, or the empty string when it has none; a part
  without children yields the empty string. Deeper descendants are not visited:
  cutting the children's own subtrees off does not change the result.
\<close>

theorem body_from_direct_children:
  "getEmailBody env None = []
   \<and> (is_text_plain p \<and> truthy (bodyData p) \<longrightarrow>
        getEmailBody env (Some p) = base64_toString env (or_empty (bodyData p)))
   \<and> (\<not> (is_text_plain p \<and> truthy (bodyData p)) \<longrightarrow>
        getEmailBody env (Some p) =
          (case parts p of
             None \<Rightarrow> []
           | Some ps \<Rightarrow> join nl (map (child_text env) (filter is_text_plain ps))))
   \<and> (\<not> (is_text_plain p \<and> truthy (bodyData p)) \<longrightarrow>
        getEmailBody env (Some (Part (mimeType p) (headers p) (bodyData p) (map_option (map prune) (parts p))))
          = getEmailBody env (Some p))"
proof -
  have "getEmailBody env None = []" by (simp add: getEmailBody_def)
  moreover have "getEmailBody env (Some (Part (mimeType p) (headers p) (bodyData p) (map_option (map prune) (parts p))))
          = getEmailBody env (Some p)" if "\<not> (is_text_plain p \<and> truthy (bodyData p))"
  proof (cases "parts p")
    case None
    have "is_text_plain (Part (mimeType p) (headers p) (bodyData p) None) = is_text_plain p"
      by (simp add: is_text_plain_def)
    with that None show ?thesis by (auto simp: getEmailBody_Some)
  next
    case (Some ps)
    have "is_text_plain (Part (mimeType p) (headers p) (bodyData p) (Some (map prune ps)))
            = is_text_plain p"
      by (simp add: is_text_plain_def)
    with that Some show ?thesis
      by (auto simp: getEmailBody_Some children_prune)
  qed
  ultimately show ?thesis
    by (simp add: getEmailBody_Some)
qed

theorem body_from_direct_children_witness:
  "\<not> (is_text_plain (Part (Some ''multipart/alternative'') None None
          (Some [text_part ''text/plain'' ''SGVsbG8'', text_part ''text/html'' ''PGI-SGk8L2I-'']))
        \<and> truthy (bodyData (Part (Some ''multipart/alternative'') None None
          (Some [text_part ''text/plain'' ''SGVsbG8'', text_part ''text/html'' ''PGI-SGk8L2I-'']))))
   \<and> getEmailBody (sample_env (Inr None) (sample_message [] [] [] []))
       (Some (Part (Some ''multipart/alternative'') None None
          (Some [text_part ''text/plain'' ''SGVsbG8'', text_part ''text/html'' ''PGI-SGk8L2I-''])))
       = ''Hello''
   \<and> is_text_plain (text_part ''text/plain'' ''SGVsbG8'')
   \<and> truthy (bodyData (text_part ''text/plain'' ''SGVsbG8''))
   \<and> getEmailBody (sample_env (Inr None) (sample_message [] [] [] []))
       (Some (text_part ''text/plain'' ''SGVsbG8'')) = ''Hello''"
proof -
  let ?env = "sample_env (Inr None) (sample_message [] [] [] [])"
  let ?p = "Part (Some ''multipart/alternative'') None None
          (Some [text_part ''text/plain'' ''SGVsbG8'', text_part ''text/html'' ''PGI-SGk8L2I-''])"
  let ?q = "text_part ''text/plain'' ''SGVsbG8''"
  have hello: "base64_decode ''SGVsbG8'' = ''Hello''" by code_simp
  have np: "\<not> (is_text_plain ?p \<and> truthy (bodyData ?p))"
    by (simp add: is_text_plain_def)
  have q: "is_text_plain ?q" "truthy (bodyData ?q)"
    by (simp_all add: is_text_plain_def text_part_def truthy_def)
  from body_from_direct_children [of ?env ?p] np
  have "getEmailBody ?env (Some ?p)
          = (case parts ?p of None \<Rightarrow> []
             | Some ps \<Rightarrow> join nl (map (child_text ?env) (filter is_text_plain ps)))"
    by blast
  then have a: "getEmailBody ?env (Some ?p) = ''Hello''"
    by (simp add: is_text_plain_def text_part_def child_text_def truthy_def or_empty_def
        sample_env_def hello)
  from body_from_direct_children [of ?env ?q] q
  have "getEmailBody ?env (Some ?q) = base64_toString ?env (or_empty (bodyData ?q))"
    by blast
  then have b: "getEmailBody ?env (Some ?q) = ''Hello''"
    by (simp add: text_part_def or_empty_def sample_env_def hello)
  from np q a b show ?thesis by blast
qed

section \<open>Classification and the date header\<close>


lemma extractEmailInfo_date:
  "extractEmailInfo env details =
     (if date_header details \<noteq> [] \<and> Date_parse env (date_header details) = None
      then Inl (RangeError ''Invalid time value'')
      else Inr \<lparr>id' = or_empty (msg_id details),
                companyName = (case classifier_result env details of
                                 Some ai \<Rightarrow> ai_companyName ai | None \<Rightarrow> ''Unknown Company''),
                jobProfile = (case classifier_result env details of
                                Some ai \<Rightarrow> ai_jobProfile ai | None \<Rightarrow> ''Unknown Position''),
                applicationStatus = (case classifier_result env details of
                                Some ai \<Rightarrow> ai_applicationStatus ai | None \<Rightarrow> ''Applied''),
                date = (if date_header details = [] then None
                        else Some (toISOString env (the (Date_parse env (date_header details))))),
                originalSubject = or_empty (header_value (message_headers details) ''Subject''),
                from' = trim (replace_first
                          (or_empty (header_value (message_headers details) ''From'')) angleAddress)\<rparr>)"
  by (auto simp: extractEmailInfo_def classifier_result_def date_header_def Let_def iso_date_cases
      split: option.splits)

lemma extractEmailInfo_001_throws:
  "date_header details \<noteq> [] \<Longrightarrow> Date_parse env (date_header details) = None \<Longrightarrow>
   extractEmailInfo_001 env details = Inl (RangeError ''Invalid time value'')"
  by (auto simp: extractEmailInfo_001_def date_header_def Let_def iso_date_cases
      split: option.splits)

lemma sample_date_header: "date_header (sample_message subject from d ps) = d"
  by (simp add: date_header_def sample_message_def message_headers_def header_value_def or_empty_def)

text \<open>
  Claim C2 (classification is total). The claim asks for a record with a null date
  when the \<^verbatim>\<open>Date\<close> header does not parse. Both versions of \<^verbatim>\<open>extractEmailInfo\<close>
  guard the conversion only against an absent or empty header, so on a message with
  the header \<^verbatim>\<open>Date: not a date\<close> they throw a \<^verbatim>\<open>RangeError\<close>, and the full-sync route
  answers 500 for the whole batch. On every other message a record is returned
  (\<open>extractEmailInfo_date\<close>).
\<close>

theorem unparsable_date_throws:
  "extractEmailInfo (sample_env (Inr (Some [''m1'']))
        (sample_message ''Your application'' ''Acme <jobs@acme.com>'' ''not a date'' []))
     (sample_message ''Your application'' ''Acme <jobs@acme.com>'' ''not a date'' [])
     = Inl (RangeError ''Invalid time value'')
   \<and> extractEmailInfo_001 (sample_env (Inr (Some [''m1'']))
        (sample_message ''Your application'' ''Acme <jobs@acme.com>'' ''not a date'' []))
     (sample_message ''Your application'' ''Acme <jobs@acme.com>'' ''not a date'' [])
     = Inl (RangeError ''Invalid time value'')
   \<and> GET (sample_env (Inr (Some [''m1'']))
        (sample_message ''Your application'' ''Acme <jobs@acme.com>'' ''not a date'' []))
       (Some ''token'')
     = \<lparr>status = 500,
        json = Error_body ''Failed to fetch emails'' (Some ''RangeError: Invalid time value'')\<rparr>"
proof -
  let ?m = "sample_message ''Your application'' ''Acme <jobs@acme.com>'' ''not a date'' []"
  let ?env = "sample_env (Inr (Some [''m1''])) ?m"
  have d: "date_header ?m \<noteq> []" "Date_parse ?env (date_header ?m) = None"
    by (simp_all add: sample_date_header sample_env_def)
  then have a: "extractEmailInfo ?env ?m = Inl (RangeError ''Invalid time value'')"
    by (simp add: extractEmailInfo_date)
  from d have b: "extractEmailInfo_001 ?env ?m = Inl (RangeError ''Invalid time value'')"
    by (rule extractEmailInfo_001_throws)
  have l: "messages_list ?env subject_query 100 = Inr (Some [''m1''])"
    and g: "messages_get ?env ''m1'' = Inr ?m"
    by (simp_all add: sample_env_def)
  have c: "GET ?env (Some ''token'')
     = \<lparr>status = 500,
        json = Error_body ''Failed to fetch emails'' (Some ''RangeError: Invalid time value'')\<rparr>"
    by (simp add: GET_def full_sync_task_def truthy_def l g a)
  from a b c show ?thesis by blast
qed

section \<open>The pattern-matching classifier, properties\<close>

lemma notGt_has: "items_have False [Ch CHR ''>''] c = (c = CHR ''>'')"
  by (auto simp: items_have_def)

lemma bt_star_no_close:
  "CHR ''>'' \<notin> set s \<Longrightarrow>
   bt False [R (Star (NotIn [Ch CHR ''>''])), CloseGrp p, R (Lit ''>'')] s pos cap = None"
proof (induction s arbitrary: pos)
  case Nil
  show ?case by simp
next
  case (Cons x xs)
  then have x: "x \<noteq> CHR ''>''" and xs: "CHR ''>'' \<notin> set xs" by auto
  have "bt False [CloseGrp p, R (Lit ''>'')] (x # xs) pos cap = None"
    using x by (simp add: same_char_def)
  with Cons.IH [OF xs, of "Suc pos"] x show ?case
    by (simp add: notGt_has)
qed

lemma bt_emailDomain_no_close:
  "CHR ''>'' \<notin> set s \<Longrightarrow> bt False [R (pattern emailDomainPattern)] s pos cap = None"
proof (cases s)
  case Nil
  then show ?thesis by (simp add: emailDomainPattern_def)
next
  case (Cons x xs)
  assume a: "CHR ''>'' \<notin> set s"
  show ?thesis
  proof (cases xs)
    case Nil
    with Cons show ?thesis by (simp add: emailDomainPattern_def same_char_def)
  next
    case (Cons y ys)
    with a \<open>s = x # xs\<close> have "CHR ''>'' \<notin> set ys" by auto
    then have "bt False [R (Star (NotIn [Ch CHR ''>''])), CloseGrp (Suc pos), R (Lit ''>'')]
                 ys (Suc (Suc pos)) cap = None"
      by (rule bt_star_no_close)
    with Cons \<open>s = x # xs\<close> show ?thesis
      by (simp add: emailDomainPattern_def same_char_def notGt_has)
  qed
qed

lemma exec_emailDomain_no_close:
  "CHR ''>'' \<notin> set s \<Longrightarrow> exec_from emailDomainPattern text s pos = None"
proof (induction s arbitrary: pos)
  case Nil
  show ?case
    by (subst exec_from.simps) (simp add: emailDomainPattern_def)
next
  case (Cons x xs)
  have ic: "ignoreCase emailDomainPattern = False" by (simp add: emailDomainPattern_def)
  from Cons.prems have "bt False [R (pattern emailDomainPattern)] (x # xs) pos None = None"
    by (rule bt_emailDomain_no_close)
  moreover from Cons have "exec_from emailDomainPattern text xs (Suc pos) = None" by simp
  ultimately show ?case
    by (subst exec_from.simps) (simp add: ic)
qed

lemma bt_emailDomain_other:
  "x \<noteq> CHR ''@'' \<Longrightarrow> bt False [R (pattern emailDomainPattern)] (x # xs) pos cap = None"
  by (simp add: emailDomainPattern_def same_char_def)

lemma bt_star_run:
  assumes "\<forall>c \<in> set ds. cls_has i cls c" and "\<not> cls_has i cls x"
    and "bt i k (x # xs) (pos + length ds) cap = Some m"
  shows "bt i (R (Star cls) # k) (ds @ x # xs) pos cap = Some m"
  using assms by (induction ds arbitrary: pos) simp_all

lemma bt_emailDomain_at:
  assumes "dm \<noteq> []" and "CHR ''>'' \<notin> set dm"
  shows "bt False [R (pattern emailDomainPattern)] (CHR ''@'' # dm @ CHR ''>'' # post) pos None
         = Some (pos + length dm + 2, Some (Suc pos, Suc pos + length dm))"
proof -
  from assms(1) obtain d ds where dm: "dm = d # ds" by (cases dm) auto
  with assms(2) have d: "d \<noteq> CHR ''>''"
    and ds: "\<forall>c \<in> set ds. cls_has False (NotIn [Ch CHR ''>'']) c"
    by (auto simp: notGt_has)
  have "bt False [R (Star (NotIn [Ch CHR ''>''])), CloseGrp (Suc pos), R (Lit ''>'')]
          (ds @ CHR ''>'' # post) (Suc (Suc pos)) None
        = Some (Suc (Suc pos) + length ds + 1, Some (Suc pos, Suc (Suc pos) + length ds))"
    by (rule bt_star_run [OF ds]) (simp_all add: notGt_has same_char_def)
  with d show ?thesis
    by (simp add: emailDomainPattern_def same_char_def notGt_has dm)
qed

lemma exec_emailDomain_at:
  assumes "CHR ''@'' \<notin> set pre" and "dm \<noteq> []" and "CHR ''>'' \<notin> set dm"
  shows "exec_from emailDomainPattern text (pre @ CHR ''@'' # dm @ CHR ''>'' # post) pos
         = Some \<lparr>index = pos + length pre, whole = CHR ''@'' # dm @ ''>'',
                 group1 = Some (take (length dm) (drop (Suc (pos + length pre)) text))\<rparr>"
  using assms(1)
proof (induction pre arbitrary: pos)
  case Nil
  have ic: "ignoreCase emailDomainPattern = False" by (simp add: emailDomainPattern_def)
  show ?case
    by (subst exec_from.simps) (simp add: ic bt_emailDomain_at [OF assms(2,3)])
next
  case (Cons x xs)
  have ic: "ignoreCase emailDomainPattern = False" by (simp add: emailDomainPattern_def)
  from Cons.prems have x: "x \<noteq> CHR ''@''" and xs: "CHR ''@'' \<notin> set xs" by auto
  have "bt False [R (pattern emailDomainPattern)] (x # xs @ CHR ''@'' # dm @ CHR ''>'' # post) pos None
          = None"
    using x by (rule bt_emailDomain_other)
  with Cons.IH [OF xs, of "Suc pos"] show ?case
    by (subst exec_from.simps) (simp add: ic)
qed

lemma match_emailDomain_at:
  assumes "CHR ''@'' \<notin> set pre" and "dm \<noteq> []" and "CHR ''>'' \<notin> set dm"
  shows "match (pre @ CHR ''@'' # dm @ CHR ''>'' # post) emailDomainPattern
         = Some \<lparr>index = length pre, whole = CHR ''@'' # dm @ ''>'', group1 = Some dm\<rparr>"
  unfolding match_def
  by (simp add: exec_emailDomain_at [OF assms])

lemma match_emailDomain_no_close:
  "CHR ''>'' \<notin> set from \<Longrightarrow> match from emailDomainPattern = None"
  unfolding match_def by (rule exec_emailDomain_no_close)

lemma split_at_first:
  "(case split_at sep s of [] \<Rightarrow> [] | w # rest \<Rightarrow> w) = takeWhile (\<lambda>c. \<not> sep c) s"
  by (induction s) (auto split: list.splits)

lemma companyDomain_of_angle:
  assumes "CHR ''@'' \<notin> set pre" and "dm \<noteq> []" and "CHR ''>'' \<notin> set dm"
  shows "companyDomain_of (pre @ CHR ''@'' # dm @ CHR ''>'' # post)
         = takeWhile (\<lambda>c. c \<noteq> CHR ''.'') dm"
  by (simp add: companyDomain_of_def match_emailDomain_at [OF assms] or_empty_def split_at_first)

lemma companyDomain_of_bare:
  "CHR ''>'' \<notin> set from \<Longrightarrow> companyDomain_of from = []"
  by (simp add: companyDomain_of_def match_emailDomain_no_close)

lemma status_order:
  "map fst statusPatterns = [''Rejected'', ''Interview'', ''Offer'', ''Application Received'']"
  by (simp add: statusPatterns_def)

lemma first_status_hits:
  "first_status statusPatterns text =
     (if hits ''Rejected'' text then Some ''Rejected''
      else if hits ''Interview'' text then Some ''Interview''
      else if hits ''Offer'' text then Some ''Offer''
      else if hits ''Application Received'' text then Some ''Application Received''
      else None)"
  by (simp add: statusPatterns_def hits_def patterns_for_def)

lemma thankYou_hits: "test thankYouForYourInterest text \<Longrightarrow> hits ''Rejected'' text"
  by (simp add: statusPatterns_def hits_def patterns_for_def thankYouForYourInterest_def)

text \<open>
  Claim C5 (status priority). The status groups are tried on the lower-cased
  concatenation of subject and body in the order Rejected, Interview, Offer,
  Application Received, the first group one of whose patterns matches gives the
  status, and the status is Applied when none matches. A text matching
  \<^verbatim>\<open>thank you for your interest\<close> is therefore Rejected, never Application Received,
  and so is the body \<^verbatim>\<open>Unfortunately, thank you for your interest in the role\<close>.
\<close>

theorem status_priority:
  "map fst statusPatterns = [''Rejected'', ''Interview'', ''Offer'', ''Application Received'']
   \<and> applicationStatus_of subject body =
       (if hits ''Rejected'' (toLowerCase (subject @ '' '' @ body)) then ''Rejected''
        else if hits ''Interview'' (toLowerCase (subject @ '' '' @ body)) then ''Interview''
        else if hits ''Offer'' (toLowerCase (subject @ '' '' @ body)) then ''Offer''
        else if hits ''Application Received'' (toLowerCase (subject @ '' '' @ body))
          then ''Application Received''
        else ''Applied'')
   \<and> (test thankYouForYourInterest (toLowerCase (subject @ '' '' @ body)) \<longrightarrow>
        applicationStatus_of subject body = ''Rejected'')
   \<and> applicationStatus_of ''Your application''
         ''Unfortunately, thank you for your interest in the role'' = ''Rejected''"
proof -
  have a: "applicationStatus_of subject body =
       (if hits ''Rejected'' (toLowerCase (subject @ '' '' @ body)) then ''Rejected''
        else if hits ''Interview'' (toLowerCase (subject @ '' '' @ body)) then ''Interview''
        else if hits ''Offer'' (toLowerCase (subject @ '' '' @ body)) then ''Offer''
        else if hits ''Application Received'' (toLowerCase (subject @ '' '' @ body))
          then ''Application Received''
        else ''Applied'')" for subject body
    by (simp add: applicationStatus_of_def first_status_hits Let_def)
  have b: "applicationStatus_of subject body = ''Rejected''"
    if "test thankYouForYourInterest (toLowerCase (subject @ '' '' @ body))"
    using thankYou_hits [OF that] by (simp add: a)
  have c: "applicationStatus_of ''Your application''
         ''Unfortunately, thank you for your interest in the role'' = ''Rejected''"
    by code_simp
  from status_order a b c show ?thesis by blast
qed

theorem status_priority_witness:
  "test thankYouForYourInterest
     (toLowerCase (''Your application'' @ '' '' @ ''Thank you for your interest in the role''))
   \<and> applicationStatus_of ''Your application'' ''Thank you for your interest in the role''
       = ''Rejected''"
proof -
  have t: "test thankYouForYourInterest
     (toLowerCase (''Your application'' @ '' '' @ ''Thank you for your interest in the role''))"
    by code_simp
  with status_priority [of "''Your application''" "''Thank you for your interest in the role''"]
  show ?thesis by blast
qed

text \<open>
  Claim C6, as stated, fails at its own example. For the subject
  \<^verbatim>\<open>Your application\<close>, an empty body and the sender \<^verbatim>\<open>jobs@Acme-Careers.com\<close>, the
  second company pattern (a leading run up to a separator or the end of the text)
  matches the whole text, and the company name is \<^verbatim>\<open>Your application\<close>. With a body
  on which no pattern matches (\<^verbatim>\<open>!\<close>), the same sender gives \<^verbatim>\<open>Unknown Company\<close>: the
  domain is read by \<^verbatim>\<open>/@([^>]+)>/\<close>, which needs a closing angle bracket after the
  address.
\<close>

theorem company_example_counterexample:
  "companyName_of ''Your application'' [] ''jobs@Acme-Careers.com'' = ''Your application''
   \<and> companyName_of ''Your application'' ''!'' ''jobs@Acme-Careers.com'' = ''Unknown Company''"
  by code_simp

text \<open>
  Claim C6, amended. When no company pattern captures anything in the concatenated
  subject and body, the company name is \<^verbatim>\<open>Unknown Company\<close> if the company domain read
  from the sender is empty, and is otherwise made from that domain: the first
  occurrence of one of careers, jobs, hr, recruiting, talent (in any case) is cut
  out, the rest is split at dots and hyphens, the first letter of each piece is
  capitalized, the pieces are joined with spaces and the result is trimmed. The
  company domain is empty for a sender without a closing angle bracket; for a
  sender of the form \<^verbatim>\<open>...@domain>...\<close>, with no \<^verbatim>\<open>@\<close> before and a non-empty domain free
  of \<^verbatim>\<open>>\<close>, it is the domain up to its first dot. In particular the subject
  \<^verbatim>\<open>Your application\<close>, the body \<^verbatim>\<open>!\<close> and the sender
  \<^verbatim>\<open>Acme <jobs@Acme-Careers.com>\<close> give the company name \<^verbatim>\<open>Acme\<close>.
\<close>

theorem company_domain_fallback:
  assumes "first_capture companyPatterns (subject @ '' '' @ body) = None"
  shows "companyName_of subject body from =
           (if companyDomain_of from = [] then ''Unknown Company''
            else domain_name (companyDomain_of from))
       \<and> (CHR ''>'' \<notin> set from \<longrightarrow> companyName_of subject body from = ''Unknown Company'')
       \<and> (\<forall>pre dm post.
             from = pre @ CHR ''@'' # dm @ CHR ''>'' # post \<and> CHR ''@'' \<notin> set pre
             \<and> dm \<noteq> [] \<and> CHR ''>'' \<notin> set dm \<longrightarrow>
             companyDomain_of from = takeWhile (\<lambda>c. c \<noteq> CHR ''.'') dm)
       \<and> companyName_of ''Your application'' ''!'' ''Acme <jobs@Acme-Careers.com>'' = ''Acme''"
proof -
  have e: "companyName_of ''Your application'' ''!'' ''Acme <jobs@Acme-Careers.com>'' = ''Acme''"
    by code_simp
  from assms have a: "companyName_of subject body from =
           (if companyDomain_of from = [] then ''Unknown Company''
            else domain_name (companyDomain_of from))"
    by (simp add: companyName_of_def Let_def)
  then have b: "companyName_of subject body from = ''Unknown Company''" if "CHR ''>'' \<notin> set from"
    using companyDomain_of_bare [OF that] by simp
  from a b e companyDomain_of_angle show ?thesis by blast
qed

theorem company_domain_fallback_witness:
  "first_capture companyPatterns (''Your application'' @ '' '' @ ''!'') = None
   \<and> ''Acme <jobs@Acme-Careers.com>'' = ''Acme <jobs'' @ CHR ''@'' # ''Acme-Careers.com'' @ CHR ''>'' # []
   \<and> CHR ''@'' \<notin> set ''Acme <jobs'' \<and> ''Acme-Careers.com'' \<noteq> []
   \<and> CHR ''>'' \<notin> set ''Acme-Careers.com''
   \<and> companyDomain_of ''Acme <jobs@Acme-Careers.com>'' = ''Acme-Careers''
   \<and> companyName_of ''Your application'' ''!'' ''Acme <jobs@Acme-Careers.com>'' = ''Acme''
   \<and> CHR ''>'' \<notin> set ''jobs@Acme-Careers.com''
   \<and> companyName_of ''Your application'' ''!'' ''jobs@Acme-Careers.com'' = ''Unknown Company''"
proof -
  have h: "first_capture companyPatterns (''Your application'' @ '' '' @ ''!'') = None"
    by code_simp
  have f: "''Acme <jobs@Acme-Careers.com>''
             = ''Acme <jobs'' @ CHR ''@'' # ''Acme-Careers.com'' @ CHR ''>'' # []"
    and p: "CHR ''@'' \<notin> set ''Acme <jobs''" "''Acme-Careers.com'' \<noteq> []"
      "CHR ''>'' \<notin> set ''Acme-Careers.com''" "CHR ''>'' \<notin> set ''jobs@Acme-Careers.com''"
    by simp_all
  have n: "domain_name ''Acme-Careers'' = ''Acme''" by code_simp
  note w = company_domain_fallback [OF h, of "''Acme <jobs@Acme-Careers.com>''"]
  from w f p have "companyDomain_of ''Acme <jobs@Acme-Careers.com>''
      = takeWhile (\<lambda>c. c \<noteq> CHR ''.'') ''Acme-Careers.com''"
    by blast
  then have d: "companyDomain_of ''Acme <jobs@Acme-Careers.com>'' = ''Acme-Careers''" by simp
  with w n have c: "companyName_of ''Your application'' ''!'' ''Acme <jobs@Acme-Careers.com>'' = ''Acme''"
    by simp
  from company_domain_fallback [OF h, of "''jobs@Acme-Careers.com''"] p(4)
  have u: "companyName_of ''Your application'' ''!'' ''jobs@Acme-Careers.com'' = ''Unknown Company''"
    by blast
  from h f p d c u show ?thesis by blast
qed

end
